theory Spec2Isabelle
  imports Complex_Main "HOL-Library.Log_Nat"
begin

section \<open>Data model (types.ts)\<close>

text \<open>
  In the simulation a JavaScript \<open>number\<close> is modelled as a real: positions,
  velocities and hit points are only added, compared and assigned. Counters that only
  ever hold integers (lives, coins, score, jumps, the tick counter) are \<open>int\<close> or
  \<open>nat\<close>. The score is the one place where a product of decimal fractions is passed
  to \<open>Math.floor\<close>, so there the multiplication of IEEE doubles is modelled exactly
  (section on double arithmetic below).
\<close>

record Vector =
  xv :: real
  yv :: real

datatype EntityType =
  Player | Platform | Spike | Lava | Coin | Finish | Checkpoint | Text | Bouncy

text \<open>
  Everything that is passed to \<open>checkCollision\<close> has a \<open>pos\<close> and a \<open>size\<close>; the
  player object and the entities extend this common shape.
\<close>

record Rect =
  pos :: Vector
  sz :: Vector

text \<open>
  The fields of \<open>Entity\<close> that the simulation reads. \<open>collected\<close> and \<open>active\<close> are
  optional in the level data but are overwritten with booleans when a level is mounted.
\<close>

record Entity = Rect +
  eid :: string
  etype :: EntityType
  damage :: "real option"
  collected :: bool
  active :: bool
  startPos :: "Vector option"
  patrolRange :: "Vector option"
  moveSpeed :: "real option"
  moveOffset :: "real option"

record LevelData =
  spawnPos :: Vector
  levelEntities :: "Entity list"
  width :: real
  height :: real

record GameModifiers =
  energized :: bool
  lowGravity :: bool
  highGravity :: bool
  oldSchool :: bool
  hardcore :: bool
  tanky :: bool

datatype ModifierKey =
  KEnergized | KLowGravity | KHighGravity | KOldSchool | KHardcore | KTanky

datatype Status = Menu | Playing | Gameover | Victory | LevelTransition

section \<open>Constants (constants.ts)\<close>

definition GRAVITY :: real where "GRAVITY = 32 / 100"
definition MOVE_SPEED :: real where "MOVE_SPEED = 22 / 10"
definition RUN_SPEED :: real where "RUN_SPEED = 4"
definition CROUCH_SPEED :: real where "CROUCH_SPEED = 1"
definition JUMP_FORCE :: real where "JUMP_FORCE = - (92 / 10)"
definition BOUNCE_FORCE :: real where "BOUNCE_FORCE = - 15"
definition MAX_FALL_SPEED :: real where "MAX_FALL_SPEED = 8"
definition PLAYER_SIZE :: real where "PLAYER_SIZE = 32"
definition CROUCH_HEIGHT :: real where "CROUCH_HEIGHT = 16"
definition MAX_JUMPS :: int where "MAX_JUMPS = 2"
definition DEFAULT_MAX_HP :: real where "DEFAULT_MAX_HP = 100"
definition INITIAL_LIVES :: int where "INITIAL_LIVES = 3"

subsection \<open>Double arithmetic for the score\<close>

text \<open>
  A double is the rational it denotes. \<open>roundDouble\<close> is round-to-nearest, ties to
  even, to 53 significant bits (the normal range of binary64; the score never leaves
  it): \<open>ilog2\<close> is the binary exponent of a positive rational, \<open>roundEven\<close> rounds
  the scaled significand. A decimal literal denotes the double nearest to it, and
  \<open>a * b\<close> on doubles is the rounded exact product.
\<close>

definition ilog2 :: "rat \<Rightarrow> int" where
  "ilog2 x = (if x \<ge> 1 then bitlen \<lfloor>x\<rfloor> - 1 else - bitlen (\<lceil>1 / x\<rceil> - 1))"

definition roundEven :: "rat \<Rightarrow> int" where
  "roundEven x =
    (let f = \<lfloor>x\<rfloor>; d = x - of_int f
     in if d < 1 / 2 then f
        else if d > 1 / 2 then f + 1
        else if even f then f else f + 1)"

definition roundDouble :: "rat \<Rightarrow> rat" where
  "roundDouble x =
    (if x = 0 then 0
     else (let e = ilog2 \<bar>x\<bar> - 52
           in of_int (roundEven (x / 2 powi e)) * 2 powi e))"

definition fmul :: "rat \<Rightarrow> rat \<Rightarrow> rat" where
  "fmul a b = roundDouble (a * b)"

text \<open>\<open>MODIFIER_CONFIG[key].scoreMult\<close>: the doubles written \<open>0.8\<close>, \<open>0.7\<close>, ...\<close>

fun scoreMult :: "ModifierKey \<Rightarrow> rat" where
  "scoreMult KEnergized = roundDouble (8 / 10)"
| "scoreMult KLowGravity = roundDouble (7 / 10)"
| "scoreMult KHighGravity = roundDouble (13 / 10)"
| "scoreMult KOldSchool = roundDouble (15 / 10)"
| "scoreMult KHardcore = roundDouble 2"
| "scoreMult KTanky = roundDouble (6 / 10)"

definition hardcore_lives :: int where "hardcore_lives = 1"
definition tanky_maxHp :: real where "tanky_maxHp = 150"
definition oldSchool_maxJumps :: int where "oldSchool_maxJumps = 1"

section \<open>Session controller (App.tsx, component App)\<close>

text \<open>
  The React state of \<open>App\<close>: the fields of \<open>gameState\<close>, the per-level counters, the
  level-start snapshot \<open>savedGameState\<close>, the persistent coin set, the modifiers and the
  \<open>resetKey\<close> that forces a remount of the canvas.
\<close>

record App =
  currentLevelIndex :: nat
  lives :: int
  coins :: int
  score :: int
  totalDeaths :: "int option"
  status :: Status
  currentHp :: real
  modifiers :: GameModifiers
  resetKey :: nat
  collectedCoinIds :: "string set"
  levelDeaths :: nat
  levelRestarts :: nat
  savedCoins :: int
  savedCollectedCoinIds :: "string set"

definition noModifiers :: GameModifiers where
  "noModifiers = \<lparr>energized = False, lowGravity = False, highGravity = False,
     oldSchool = False, hardcore = False, tanky = False\<rparr>"

text \<open>Reading \<open>modifiers[key]\<close>.\<close>

fun modifierOn :: "GameModifiers \<Rightarrow> ModifierKey \<Rightarrow> bool" where
  "modifierOn m KEnergized = energized m"
| "modifierOn m KLowGravity = lowGravity m"
| "modifierOn m KHighGravity = highGravity m"
| "modifierOn m KOldSchool = oldSchool m"
| "modifierOn m KHardcore = hardcore m"
| "modifierOn m KTanky = tanky m"

text \<open>\<open>calculateScoreMultiplier\<close>: six conditional multiplications, in the source's order.\<close>

definition calculateScoreMultiplier :: "GameModifiers \<Rightarrow> rat" where
  "calculateScoreMultiplier m =
    (let multiplier = 1;
         multiplier = (if energized m then fmul multiplier (scoreMult KEnergized) else multiplier);
         multiplier = (if lowGravity m then fmul multiplier (scoreMult KLowGravity) else multiplier);
         multiplier = (if highGravity m then fmul multiplier (scoreMult KHighGravity) else multiplier);
         multiplier = (if hardcore m then fmul multiplier (scoreMult KHardcore) else multiplier);
         multiplier = (if oldSchool m then fmul multiplier (scoreMult KOldSchool) else multiplier);
         multiplier = (if tanky m then fmul multiplier (scoreMult KTanky) else multiplier)
     in multiplier)"

text \<open>The modifiers in the order in which \<open>calculateScoreMultiplier\<close> visits them.\<close>

definition scoreOrder :: "ModifierKey list" where
  "scoreOrder = [KEnergized, KLowGravity, KHighGravity, KHardcore, KOldSchool, KTanky]"

text \<open>The points computed at the head of \<open>handleLevelComplete\<close>, before the modifiers.\<close>

definition levelPoints :: "nat \<Rightarrow> nat \<Rightarrow> rat" where
  "levelPoints restarts deaths =
    (if restarts > 1 then 0
     else if restarts = 1 then 25
     else if deaths = 0 then 100
     else if deaths \<le> 2 then 50
     else 10)"

text \<open>
  \<open>handleLevelComplete\<close>; \<open>numLevels\<close> is \<open>levels.length\<close>. The callback is built by
  \<open>useCallback\<close> during a render and reads \<open>levelDeaths\<close>, \<open>levelRestarts\<close>, the modifiers
  and \<open>collectedCoinIds\<close> from that render: they come from \<open>rendered\<close>, the state of the
  last render. \<open>currentLevelIndex\<close>, \<open>score\<close> and \<open>coins\<close> are read from \<open>prev\<close>, the state
  the update is applied to. The two differ when \<open>onDeath\<close> or \<open>onCoinCollect\<close> ran
  earlier in the same tick. The delayed switch from \<open>level_transition\<close> back to
  \<open>playing\<close> is a separate, later state update.
\<close>

definition handleLevelComplete :: "nat \<Rightarrow> App \<Rightarrow> App \<Rightarrow> App" where
  "handleLevelComplete numLevels rendered prev =
    (let points = levelPoints (levelRestarts rendered) (levelDeaths rendered);
         multiplier = calculateScoreMultiplier (modifiers rendered);
         points = \<lfloor>fmul points multiplier\<rfloor>;
         nextLevelIdx = currentLevelIndex prev + 1
     in if nextLevelIdx \<ge> numLevels
        then prev\<lparr>score := score prev + points, status := Victory\<rparr>
        else prev\<lparr>savedCoins := coins prev,
                  savedCollectedCoinIds := collectedCoinIds rendered,
                  levelDeaths := 0,
                  levelRestarts := 0,
                  score := score prev + points,
                  currentLevelIndex := nextLevelIdx,
                  status := LevelTransition\<rparr>)"

text \<open>\<open>handleDeath\<close>.\<close>

definition handleDeath :: "App \<Rightarrow> App" where
  "handleDeath s =
    (let s1 = s\<lparr>levelDeaths := levelDeaths s + 1\<rparr>;
         newLives = lives s - 1;
         newTotalDeaths = (case totalDeaths s of None \<Rightarrow> 0 | Some d \<Rightarrow> d) + 1
     in if newLives \<le> 0
        then s1\<lparr>collectedCoinIds := savedCollectedCoinIds s,
                levelRestarts := levelRestarts s + 1,
                resetKey := resetKey s + 1,
                lives := (if hardcore (modifiers s) then hardcore_lives else INITIAL_LIVES),
                coins := savedCoins s,
                totalDeaths := Some newTotalDeaths\<rparr>
        else s1\<lparr>lives := newLives, totalDeaths := Some newTotalDeaths\<rparr>)"

text \<open>\<open>handleCoinCollect\<close>.\<close>

definition handleCoinCollect :: "string \<Rightarrow> App \<Rightarrow> App" where
  "handleCoinCollect i s =
     s\<lparr>collectedCoinIds := insert i (collectedCoinIds s), coins := coins s + 1\<rparr>"

text \<open>The \<open>key\<close> prop of the canvas: a change of this pair remounts the canvas.\<close>

definition canvasKey :: "App \<Rightarrow> nat \<times> nat" where
  "canvasKey s = (currentLevelIndex s, resetKey s)"

text \<open>The HP figure the HUD renders: \<open>Math.max(0, currentHp)\<close>.\<close>

definition hudHp :: "App \<Rightarrow> real" where
  "hudHp s = max 0 (currentHp s)"

text \<open>\<open>onHealthUpdate\<close> is \<open>setCurrentHp\<close>: the reported value is stored as it comes.\<close>

definition setCurrentHp :: "real \<Rightarrow> App \<Rightarrow> App" where
  "setCurrentHp h s = s\<lparr>currentHp := h\<rparr>"

text \<open>\<open>toggleModifier\<close>.\<close>

definition setModifier :: "ModifierKey \<Rightarrow> bool \<Rightarrow> GameModifiers \<Rightarrow> GameModifiers" where
  "setModifier k b m =
    (case k of
       KEnergized \<Rightarrow> m\<lparr>energized := b\<rparr>
     | KLowGravity \<Rightarrow> m\<lparr>lowGravity := b\<rparr>
     | KHighGravity \<Rightarrow> m\<lparr>highGravity := b\<rparr>
     | KOldSchool \<Rightarrow> m\<lparr>oldSchool := b\<rparr>
     | KHardcore \<Rightarrow> m\<lparr>hardcore := b\<rparr>
     | KTanky \<Rightarrow> m\<lparr>tanky := b\<rparr>)"

definition toggleModifier :: "ModifierKey \<Rightarrow> GameModifiers \<Rightarrow> GameModifiers" where
  "toggleModifier k prev =
    (let next = setModifier k (\<not> modifierOn prev k) prev;
         next = (if k = KLowGravity \<and> lowGravity next
                 then next\<lparr>highGravity := False\<rparr> else next);
         next = (if k = KHighGravity \<and> highGravity next
                 then next\<lparr>lowGravity := False, oldSchool := False\<rparr> else next);
         next = (if k = KOldSchool \<and> oldSchool next
                 then next\<lparr>highGravity := False\<rparr> else next)
     in next)"

text \<open>A sequence of toggles, applied left to right.\<close>

fun toggleAll :: "ModifierKey list \<Rightarrow> GameModifiers \<Rightarrow> GameModifiers" where
  "toggleAll [] m = m"
| "toggleAll (k # ks) m = toggleAll ks (toggleModifier k m)"

section \<open>Simulation (App.tsx, component GameCanvas)\<close>

text \<open>\<open>checkCollision\<close>: the axis-aligned bounding-box test.\<close>

definition checkCollision :: "'a Rect_scheme \<Rightarrow> 'b Rect_scheme \<Rightarrow> bool" where
  "checkCollision rect1 rect2 \<longleftrightarrow>
     xv (pos rect1) < xv (pos rect2) + xv (sz rect2) \<and>
     xv (pos rect1) + xv (sz rect1) > xv (pos rect2) \<and>
     yv (pos rect1) < yv (pos rect2) + yv (sz rect2) \<and>
     yv (pos rect1) + yv (sz rect1) > yv (pos rect2)"

text \<open>The constants derived from the modifiers at the head of the component.\<close>

definition speedScale :: "GameModifiers \<Rightarrow> real" where
  "speedScale m = (if energized m then 14 / 10 else 1) * (if tanky m then 85 / 100 else 1)"

definition gravityScale :: "GameModifiers \<Rightarrow> real" where
  "gravityScale m =
     (if lowGravity m then 6 / 10 else (if highGravity m then 14 / 10 else 1))
       * (if tanky m then 11 / 10 else 1)"

definition jumpScale :: "GameModifiers \<Rightarrow> real" where
  "jumpScale m = (if oldSchool m then 13 / 10 else 1) * (if tanky m then 95 / 100 else 1)"

definition EFFECTIVE_GRAVITY :: "GameModifiers \<Rightarrow> real" where
  "EFFECTIVE_GRAVITY m = GRAVITY * gravityScale m"

definition EFFECTIVE_JUMP_FORCE :: "GameModifiers \<Rightarrow> real" where
  "EFFECTIVE_JUMP_FORCE m = JUMP_FORCE * jumpScale m"

definition EFFECTIVE_MOVE_SPEED :: "GameModifiers \<Rightarrow> real" where
  "EFFECTIVE_MOVE_SPEED m = MOVE_SPEED * speedScale m"

definition EFFECTIVE_RUN_SPEED :: "GameModifiers \<Rightarrow> real" where
  "EFFECTIVE_RUN_SPEED m = RUN_SPEED * speedScale m"

definition EFFECTIVE_CROUCH_SPEED :: "GameModifiers \<Rightarrow> real" where
  "EFFECTIVE_CROUCH_SPEED m = CROUCH_SPEED * speedScale m"

definition CURRENT_MAX_JUMPS :: "GameModifiers \<Rightarrow> int" where
  "CURRENT_MAX_JUMPS m = (if oldSchool m then oldSchool_maxJumps else MAX_JUMPS)"

definition EFFECTIVE_MAX_FALL :: real where
  "EFFECTIVE_MAX_FALL = MAX_FALL_SPEED"

text \<open>The object held by \<open>playerRef\<close>.\<close>

record PlayerRef = Rect +
  vel :: Vector
  isGrounded :: bool
  isCrouching :: bool
  isDead :: bool
  jumpsRemaining :: int
  hp :: real
  invulnerableUntil :: nat
  facingRight :: bool

text \<open>
  The mutable refs of the component. Particles, the camera and the screen shake are
  cosmetic (and random) and are left out; they are never read by the simulation.
\<close>

record GameCanvas =
  player :: PlayerRef
  keys :: "string \<Rightarrow> bool"
  jumpRequested :: bool
  checkpoint :: Vector
  time :: nat
  levelCompleteTriggered :: bool
  entities :: "Entity list"

text \<open>What a tick sends out: sounds and the callbacks into the session controller.\<close>

datatype Sound = Die | Jump | DoubleJump | Bounce | CoinSound | Hurt | Win

datatype Event =
  PlaySound Sound | OnHealthUpdate real | OnDeath | OnCoinCollect string | OnLevelComplete

text \<open>The entity list built when a level is mounted.\<close>

definition initEntity :: "string set \<Rightarrow> Entity \<Rightarrow> Entity" where
  "initEntity ids e =
     e\<lparr>active := (if etype e = Coin \<and> eid e \<in> ids then False else True),
       collected := (if etype e = Coin \<and> eid e \<in> ids then True else False),
       startPos := Some (pos e)\<rparr>"

text \<open>A freshly mounted canvas: the initial values of the refs, then the level effect.\<close>

definition mountGame :: "LevelData \<Rightarrow> GameModifiers \<Rightarrow> real \<Rightarrow> string set \<Rightarrow> GameCanvas" where
  "mountGame level m maxHp ids =
    \<lparr>player =
        \<lparr>pos = spawnPos level,
         sz = \<lparr>xv = PLAYER_SIZE, yv = PLAYER_SIZE\<rparr>,
         vel = \<lparr>xv = 0, yv = 0\<rparr>,
         isGrounded = False,
         isCrouching = False,
         isDead = False,
         jumpsRemaining = CURRENT_MAX_JUMPS m,
         hp = maxHp,
         invulnerableUntil = 0,
         facingRight = True\<rparr>,
     keys = (\<lambda>_. False),
     jumpRequested = False,
     checkpoint = spawnPos level,
     time = 0,
     levelCompleteTriggered = False,
     entities = map (initEntity ids) (levelEntities level)\<rparr>"

text \<open>The keyboard handlers.\<close>

definition isJumpCode :: "string \<Rightarrow> bool" where
  "isJumpCode c \<longleftrightarrow> c = ''Space'' \<or> c = ''ArrowUp'' \<or> c = ''KeyW''"

definition handleKeyDown :: "string \<Rightarrow> bool \<Rightarrow> GameCanvas \<Rightarrow> GameCanvas" where
  "handleKeyDown c repeat g =
    (let g = g\<lparr>keys := (keys g)(c := True)\<rparr>
     in if isJumpCode c \<and> \<not> repeat then g\<lparr>jumpRequested := True\<rparr> else g)"

definition handleKeyUp :: "string \<Rightarrow> GameCanvas \<Rightarrow> GameCanvas" where
  "handleKeyUp c g = g\<lparr>keys := (keys g)(c := False)\<rparr>"

subsection \<open>The stages of \<open>update\<close>, in the source's order\<close>

text \<open>Respawn of a player marked dead by the previous tick.\<close>

definition respawn :: "GameModifiers \<Rightarrow> real \<Rightarrow> GameCanvas \<Rightarrow> Event list \<times> GameCanvas" where
  "respawn m maxHp g =
    (if isDead (player g)
     then ([PlaySound Die, OnHealthUpdate maxHp, OnDeath],
           g\<lparr>player := (player g)\<lparr>pos := checkpoint g,
                                   vel := \<lparr>xv = 0, yv = 0\<rparr>,
                                   isDead := False,
                                   jumpsRemaining := CURRENT_MAX_JUMPS m,
                                   hp := maxHp,
                                   invulnerableUntil := 0\<rparr>\<rparr>)
     else ([], g))"

text \<open>
  Moving entities. \<open>entity.moveSpeed || 0.05\<close> takes the default when the speed is
  missing and also when it is \<open>0\<close>; \<open>entity.moveOffset || 0\<close> likewise.
\<close>

definition moveEntity :: "nat \<Rightarrow> Entity \<Rightarrow> Entity" where
  "moveEntity tm entity =
    (case patrolRange entity of
       None \<Rightarrow> entity
     | Some prange \<Rightarrow>
        (case startPos entity of
           None \<Rightarrow> entity
         | Some start \<Rightarrow>
            (let speed = (case moveSpeed entity of
                            None \<Rightarrow> 5 / 100
                          | Some v \<Rightarrow> if v = 0 then 5 / 100 else v);
                 offset = (case moveOffset entity of
                             None \<Rightarrow> 0
                           | Some v \<Rightarrow> if v = 0 then 0 else v);
                 t = real tm * speed + offset;
                 offsetX = sin t * xv prange;
                 offsetY = sin t * yv prange
             in entity\<lparr>pos := \<lparr>xv = xv start + offsetX, yv = yv start + offsetY\<rparr>\<rparr>)))"

definition moveEntities :: "GameCanvas \<Rightarrow> GameCanvas" where
  "moveEntities g = g\<lparr>entities := map (moveEntity (time g)) (entities g)\<rparr>"

text \<open>Obstacles: the kinds the collision passes and the stand-up probe look at.\<close>

definition isSolid :: "Entity \<Rightarrow> bool" where
  "isSolid entity \<longleftrightarrow> etype entity = Platform \<or> etype entity = Bouncy"

text \<open>The stand-up probe: the loop that clears \<open>canStand\<close> and breaks.\<close>

fun canStand :: "Rect \<Rightarrow> Entity list \<Rightarrow> bool" where
  "canStand testRect [] = True"
| "canStand testRect (entity # es) =
     (if isSolid entity \<and> checkCollision testRect entity then False
      else canStand testRect es)"

definition updateCrouch :: "GameCanvas \<Rightarrow> GameCanvas" where
  "updateCrouch g =
    (let p = player g;
         isCrouchingInput = (keys g ''ArrowDown'' \<or> keys g ''KeyS'')
     in if isCrouchingInput \<and> \<not> isCrouching p
        then g\<lparr>player := p\<lparr>isCrouching := True,
                            pos := (pos p)\<lparr>yv := yv (pos p) + (PLAYER_SIZE - CROUCH_HEIGHT)\<rparr>,
                            sz := (sz p)\<lparr>yv := CROUCH_HEIGHT\<rparr>\<rparr>\<rparr>
        else if \<not> isCrouchingInput \<and> isCrouching p
        then (let testRect =
                    \<lparr>pos = \<lparr>xv = xv (pos p),
                            yv = yv (pos p) - (PLAYER_SIZE - CROUCH_HEIGHT)\<rparr>,
                     sz = \<lparr>xv = PLAYER_SIZE, yv = PLAYER_SIZE\<rparr>\<rparr>
              in if canStand testRect (entities g)
                 then g\<lparr>player := p\<lparr>isCrouching := False,
                                     pos := (pos p)\<lparr>yv := yv (pos p) - (PLAYER_SIZE - CROUCH_HEIGHT)\<rparr>,
                                     sz := (sz p)\<lparr>yv := PLAYER_SIZE\<rparr>\<rparr>\<rparr>
                 else g)
        else g)"

text \<open>Horizontal intent and the eased velocity.\<close>

definition updateVelX :: "GameModifiers \<Rightarrow> GameCanvas \<Rightarrow> GameCanvas" where
  "updateVelX m g =
    (let p = player g;
         isRunning = (keys g ''ShiftLeft'' \<or> keys g ''ShiftRight'');
         speed = (if isRunning then EFFECTIVE_RUN_SPEED m
                  else if isCrouching p then EFFECTIVE_CROUCH_SPEED m
                  else EFFECTIVE_MOVE_SPEED m);
         (targetSpeed, p) =
            (if keys g ''ArrowRight'' \<or> keys g ''KeyD'' then (speed, p\<lparr>facingRight := True\<rparr>)
             else if keys g ''ArrowLeft'' \<or> keys g ''KeyA'' then (- speed, p\<lparr>facingRight := False\<rparr>)
             else (0, p))
     in g\<lparr>player := p\<lparr>vel := (vel p)\<lparr>xv := xv (vel p) + (targetSpeed - xv (vel p)) * (2 / 10)\<rparr>\<rparr>\<rparr>)"

text \<open>Gravity, capped at the maximal fall speed.\<close>

definition applyGravity :: "GameModifiers \<Rightarrow> GameCanvas \<Rightarrow> GameCanvas" where
  "applyGravity m g =
    (let p = player g;
         vy = yv (vel p) + EFFECTIVE_GRAVITY m;
         vy = (if vy > EFFECTIVE_MAX_FALL then EFFECTIVE_MAX_FALL else vy)
     in g\<lparr>player := p\<lparr>vel := (vel p)\<lparr>yv := vy\<rparr>\<rparr>\<rparr>)"

text \<open>The jump: the latch is read, a jump is granted if one remains, the latch is cleared.\<close>

definition jumpLogic :: "GameModifiers \<Rightarrow> GameCanvas \<Rightarrow> Event list \<times> GameCanvas" where
  "jumpLogic m g =
    (if jumpRequested g
     then (let p = player g;
               (ev, p) =
                 (if jumpsRemaining p > 0
                  then ([PlaySound (if jumpsRemaining p = CURRENT_MAX_JUMPS m
                                    then Jump else DoubleJump)],
                        p\<lparr>vel := (vel p)\<lparr>yv := EFFECTIVE_JUMP_FORCE m\<rparr>,
                          isGrounded := False,
                          jumpsRemaining := jumpsRemaining p - 1\<rparr>)
                  else ([], p))
           in (ev, g\<lparr>player := p, jumpRequested := False\<rparr>))
     else ([], g))"

text \<open>The horizontal pass: displacement, clamp to the level, push out of obstacles.\<close>

definition moveX :: "PlayerRef \<Rightarrow> PlayerRef" where
  "moveX p = p\<lparr>pos := (pos p)\<lparr>xv := xv (pos p) + xv (vel p)\<rparr>\<rparr>"

definition clampX :: "LevelData \<Rightarrow> PlayerRef \<Rightarrow> PlayerRef" where
  "clampX level p =
    (let p = (if xv (pos p) < 0
              then p\<lparr>pos := (pos p)\<lparr>xv := 0\<rparr>, vel := (vel p)\<lparr>xv := 0\<rparr>\<rparr>
              else p);
         p = (if xv (pos p) > width level - xv (sz p)
              then p\<lparr>pos := (pos p)\<lparr>xv := width level - xv (sz p)\<rparr>,
                     vel := (vel p)\<lparr>xv := 0\<rparr>\<rparr>
              else p)
     in p)"

definition resolveX :: "Entity \<Rightarrow> PlayerRef \<Rightarrow> PlayerRef" where
  "resolveX entity p =
    (if etype entity = Text then p
     else if isSolid entity \<and> checkCollision p entity
     then (let p = (if xv (vel p) > 0
                    then p\<lparr>pos := (pos p)\<lparr>xv := xv (pos entity) - xv (sz p)\<rparr>\<rparr>
                    else if xv (vel p) < 0
                    then p\<lparr>pos := (pos p)\<lparr>xv := xv (pos entity) + xv (sz entity)\<rparr>\<rparr>
                    else p)
           in p\<lparr>vel := (vel p)\<lparr>xv := 0\<rparr>\<rparr>)
     else p)"

fun resolveXAll :: "Entity list \<Rightarrow> PlayerRef \<Rightarrow> PlayerRef" where
  "resolveXAll [] p = p"
| "resolveXAll (entity # es) p = resolveXAll es (resolveX entity p)"

definition xPassPlayer :: "LevelData \<Rightarrow> Entity list \<Rightarrow> PlayerRef \<Rightarrow> PlayerRef" where
  "xPassPlayer level es p = resolveXAll es (clampX level (moveX p))"

definition xPass :: "LevelData \<Rightarrow> GameCanvas \<Rightarrow> GameCanvas" where
  "xPass level g = g\<lparr>player := xPassPlayer level (entities g) (player g)\<rparr>"

text \<open>
  The vertical pass: displacement, the fall out of the level, landing, bouncing and
  ceilings. The loop carries the player and \<open>groundedThisFrame\<close>.
\<close>

definition moveY :: "LevelData \<Rightarrow> PlayerRef \<Rightarrow> PlayerRef" where
  "moveY level p =
    (let p = p\<lparr>pos := (pos p)\<lparr>yv := yv (pos p) + yv (vel p)\<rparr>\<rparr>
     in if yv (pos p) > height level then p\<lparr>isDead := True\<rparr> else p)"

definition resolveY ::
  "GameModifiers \<Rightarrow> Entity \<Rightarrow> PlayerRef \<times> bool \<Rightarrow> Event list \<times> PlayerRef \<times> bool" where
  "resolveY m entity st =
    (let p = fst st; groundedThisFrame = snd st
     in if etype entity = Text then ([], p, groundedThisFrame)
        else if isSolid entity \<and> checkCollision p entity
        then (if yv (vel p) > 0
              then (if etype entity = Bouncy
                    then ([PlaySound Bounce],
                          p\<lparr>pos := (pos p)\<lparr>yv := yv (pos entity) - yv (sz p)\<rparr>,
                            vel := (vel p)\<lparr>yv := BOUNCE_FORCE\<rparr>,
                            isGrounded := False,
                            jumpsRemaining := CURRENT_MAX_JUMPS m\<rparr>,
                          groundedThisFrame)
                    else ([],
                          p\<lparr>pos := (pos p)\<lparr>yv := yv (pos entity) - yv (sz p)\<rparr>,
                            vel := (vel p)\<lparr>yv := 0\<rparr>\<rparr>,
                          True))
              else if yv (vel p) < 0
              then ([],
                    p\<lparr>pos := (pos p)\<lparr>yv := yv (pos entity) + yv (sz entity)\<rparr>,
                      vel := (vel p)\<lparr>yv := 0\<rparr>\<rparr>,
                    groundedThisFrame)
              else ([], p, groundedThisFrame))
        else ([], p, groundedThisFrame))"

fun resolveYAll ::
  "GameModifiers \<Rightarrow> Entity list \<Rightarrow> PlayerRef \<times> bool \<Rightarrow> Event list \<times> PlayerRef \<times> bool" where
  "resolveYAll m [] st = ([], st)"
| "resolveYAll m (entity # es) st =
     (let (ev1, st1) = resolveY m entity st;
          (ev2, st2) = resolveYAll m es st1
      in (ev1 @ ev2, st2))"

definition yPassPlayer ::
  "LevelData \<Rightarrow> GameModifiers \<Rightarrow> Entity list \<Rightarrow> PlayerRef \<Rightarrow> Event list \<times> PlayerRef" where
  "yPassPlayer level m es p =
    (let (ev, p, groundedThisFrame) = resolveYAll m es (moveY level p, False);
         p = p\<lparr>isGrounded := groundedThisFrame\<rparr>;
         p = (if isGrounded p then p\<lparr>jumpsRemaining := CURRENT_MAX_JUMPS m\<rparr> else p)
     in (ev, p))"

definition yPass :: "LevelData \<Rightarrow> GameModifiers \<Rightarrow> GameCanvas \<Rightarrow> Event list \<times> GameCanvas" where
  "yPass level m g =
    (let (ev, p) = yPassPlayer level m (entities g) (player g)
     in (ev, g\<lparr>player := p\<rparr>))"

text \<open>
  The interaction pass. The body handles one entity: it may change the entity (a coin
  is collected, a checkpoint is activated), the player, the checkpoint and the finish
  latch, which travel together through the loop.
\<close>

record Interaction =
  iplayer :: PlayerRef
  icheckpoint :: Vector
  ilevelCompleteTriggered :: bool

definition hazardDamage :: "nat \<Rightarrow> Entity \<Rightarrow> PlayerRef \<Rightarrow> Event list \<times> PlayerRef" where
  "hazardDamage tm entity p =
    (if tm > invulnerableUntil p
     then (let dmg = (case damage entity of None \<Rightarrow> 1000 | Some d \<Rightarrow> d);
               p = p\<lparr>hp := hp p - dmg\<rparr>
           in if hp p > 0
              then ([OnHealthUpdate (hp p), PlaySound Hurt],
                    p\<lparr>invulnerableUntil := tm + 60,
                      vel := \<lparr>xv = - xv (vel p) * (15 / 10), yv = - 5\<rparr>\<rparr>)
              else ([OnHealthUpdate (hp p)], p\<lparr>isDead := True\<rparr>))
     else ([], p))"

definition interact :: "nat \<Rightarrow> Entity \<Rightarrow> Interaction \<Rightarrow> Event list \<times> Entity \<times> Interaction" where
  "interact tm entity st =
    (if \<not> active entity \<and> etype entity \<noteq> Checkpoint then ([], entity, st)
     else if etype entity = Text then ([], entity, st)
     else if checkCollision (iplayer st) entity
     then (if etype entity = Coin \<and> \<not> collected entity
           then ([PlaySound CoinSound, OnCoinCollect (eid entity)],
                 entity\<lparr>collected := True, active := False\<rparr>, st)
           else if etype entity = Spike \<or> etype entity = Lava
           then (let (ev, p) = hazardDamage tm entity (iplayer st)
                 in (ev, entity, st\<lparr>iplayer := p\<rparr>))
           else if etype entity = Finish
           then (if \<not> ilevelCompleteTriggered st
                 then ([PlaySound Win, OnLevelComplete], entity,
                       st\<lparr>ilevelCompleteTriggered := True\<rparr>)
                 else ([], entity, st))
           else if etype entity = Checkpoint
           then ((if xv (icheckpoint st) \<noteq> xv (pos entity) \<or> yv (icheckpoint st) \<noteq> yv (pos entity)
                  then [PlaySound CoinSound] else []),
                 entity\<lparr>active := True\<rparr>,
                 st\<lparr>icheckpoint := \<lparr>xv = xv (pos entity), yv = yv (pos entity)\<rparr>\<rparr>)
           else ([], entity, st))
     else ([], entity, st))"

fun interactAll ::
  "nat \<Rightarrow> Entity list \<Rightarrow> Interaction \<Rightarrow> Event list \<times> Entity list \<times> Interaction" where
  "interactAll tm [] st = ([], [], st)"
| "interactAll tm (entity # es) st =
     (let (ev1, entity', st1) = interact tm entity st;
          (ev2, es', st2) = interactAll tm es st1
      in (ev1 @ ev2, entity' # es', st2))"

definition interaction :: "GameCanvas \<Rightarrow> Event list \<times> GameCanvas" where
  "interaction g =
    (let (ev, es, st) =
           interactAll (time g) (entities g)
             \<lparr>iplayer = player g, icheckpoint = checkpoint g,
              ilevelCompleteTriggered = levelCompleteTriggered g\<rparr>
     in (ev, g\<lparr>player := iplayer st, checkpoint := icheckpoint st,
               levelCompleteTriggered := ilevelCompleteTriggered st, entities := es\<rparr>))"

subsection \<open>One animation frame\<close>

definition update ::
  "LevelData \<Rightarrow> GameModifiers \<Rightarrow> real \<Rightarrow> bool \<Rightarrow> GameCanvas \<Rightarrow> Event list \<times> GameCanvas" where
  "update level m maxHp isPaused g =
    (if isPaused then ([], g)
     else (let g = g\<lparr>time := time g + 1\<rparr>;
               (ev1, g) = respawn m maxHp g;
               g = moveEntities g;
               g = updateCrouch g;
               g = updateVelX m g;
               g = applyGravity m g;
               (ev2, g) = jumpLogic m g;
               g = xPass level g;
               (ev3, g) = yPass level m g;
               (ev4, g) = interaction g
           in (ev1 @ ev2 @ ev3 @ ev4, g)))"

text \<open>
  Between two frames the keyboard handlers may run. A frame is the key events that
  arrived before it and the value of \<open>isPaused\<close> during it.
\<close>

datatype KeyInput = KeyDown string bool | KeyUp string

fun handleKey :: "KeyInput \<Rightarrow> GameCanvas \<Rightarrow> GameCanvas" where
  "handleKey (KeyDown c repeat) g = handleKeyDown c repeat g"
| "handleKey (KeyUp c) g = handleKeyUp c g"


definition frame ::
  "LevelData \<Rightarrow> GameModifiers \<Rightarrow> real \<Rightarrow> KeyInput list \<times> bool \<Rightarrow> GameCanvas
     \<Rightarrow> Event list \<times> GameCanvas" where
  "frame level m maxHp f g = update level m maxHp (snd f) (fold handleKey (fst f) g)"

fun runFrames ::
  "LevelData \<Rightarrow> GameModifiers \<Rightarrow> real \<Rightarrow> (KeyInput list \<times> bool) list \<Rightarrow> GameCanvas
     \<Rightarrow> Event list \<times> GameCanvas" where
  "runFrames level m maxHp [] g = ([], g)"
| "runFrames level m maxHp (f # fs) g =
     (let (ev1, g1) = frame level m maxHp f g;
          (ev2, g2) = runFrames level m maxHp fs g1
      in (ev1 @ ev2, g2))"

text \<open>The states a mounted canvas can be in: mounted, then any frames.\<close>

definition reachable :: "LevelData \<Rightarrow> GameModifiers \<Rightarrow> real \<Rightarrow> string set
     \<Rightarrow> (KeyInput list \<times> bool) list \<Rightarrow> GameCanvas" where
  "reachable level m maxHp ids fs = snd (runFrames level m maxHp fs (mountGame level m maxHp ids))"

text \<open>An entity takes part in the interaction pass when it passes the guard at its head.\<close>

definition participates :: "Entity \<Rightarrow> bool" where
  "participates entity \<longleftrightarrow> active entity \<or> etype entity = Checkpoint"

subsection \<open>Notions used in the statements\<close>


text \<open>The invariant of a mounted canvas: whatever is inactive is a coin.\<close>

definition onlyCoinsInactive :: "Entity list \<Rightarrow> bool" where
  "onlyCoinsInactive es \<longleftrightarrow> (\<forall>e \<in> set es. active e \<or> etype e = Coin)"

text \<open>The canvas with the entities removed that fail the guard of the interaction pass.\<close>

definition withoutInactive :: "GameCanvas \<Rightarrow> GameCanvas" where
  "withoutInactive g = g\<lparr>entities := filter participates (entities g)\<rparr>"

section \<open>Concrete inputs\<close>

text \<open>
  Session states, players, entities and small levels on which the theorems below are
  evaluated. \<open>entityAt\<close> builds an entity the way \<open>createEntity\<close> does, in pixels.
\<close>

definition hardcoreOnly :: GameModifiers where
  "hardcoreOnly = noModifiers\<lparr>hardcore := True\<rparr>"

definition freshApp :: "GameModifiers \<Rightarrow> App" where
  "freshApp m =
    \<lparr>currentLevelIndex = 0, lives = (if hardcore m then hardcore_lives else INITIAL_LIVES),
     coins = 0, score = 0, totalDeaths = Some 0, status = Playing,
     currentHp = DEFAULT_MAX_HP, modifiers = m, resetKey = 0, collectedCoinIds = {},
     levelDeaths = 0, levelRestarts = 0, savedCoins = 0, savedCollectedCoinIds = {}\<rparr>"

definition lastLifeApp :: App where
  "lastLifeApp =
    (freshApp noModifiers)\<lparr>lives := 1, coins := 5, collectedCoinIds := {''c1'', ''c2''},
      savedCoins := 3, savedCollectedCoinIds := {''c1''}\<rparr>"

definition entityAt ::
  "EntityType \<Rightarrow> string \<Rightarrow> real \<Rightarrow> real \<Rightarrow> real \<Rightarrow> real \<Rightarrow> Entity" where
  "entityAt ty i x y w h =
    \<lparr>pos = \<lparr>xv = x, yv = y\<rparr>, sz = \<lparr>xv = w, yv = h\<rparr>, eid = i, etype = ty,
     damage = None, collected = False, active = True, startPos = None,
     patrolRange = None, moveSpeed = None, moveOffset = None\<rparr>"

definition demoLevel :: LevelData where
  "demoLevel =
    \<lparr>spawnPos = \<lparr>xv = 50, yv = 100\<rparr>,
     levelEntities = [entityAt Platform ''floor'' 0 400 1000 40,
                      entityAt Coin ''c1'' 200 360 40 40,
                      entityAt Spike ''s1'' 400 360 40 40],
     width = 1000, height = 600\<rparr>"

definition walkingPlayer :: PlayerRef where
  "walkingPlayer =
    \<lparr>pos = \<lparr>xv = 390, yv = 368\<rparr>, sz = \<lparr>xv = 32, yv = 32\<rparr>, vel = \<lparr>xv = 2, yv = 0\<rparr>,
     isGrounded = True, isCrouching = False, isDead = False, jumpsRemaining = 2,
     hp = 100, invulnerableUntil = 0, facingRight = True\<rparr>"

definition weakSpike :: Entity where
  "weakSpike = (entityAt Spike ''weak'' 400 360 40 40)\<lparr>damage := Some 25\<rparr>"

definition killSpike :: Entity where
  "killSpike = entityAt Spike ''kill'' 400 360 40 40"

definition walkingInteraction :: Interaction where
  "walkingInteraction =
    \<lparr>iplayer = walkingPlayer, icheckpoint = \<lparr>xv = 50, yv = 100\<rparr>,
     ilevelCompleteTriggered = False\<rparr>"

definition spikeLevel :: LevelData where
  "spikeLevel =
    \<lparr>spawnPos = \<lparr>xv = 400, yv = 360\<rparr>, levelEntities = [killSpike],
     width = 1000, height = 600\<rparr>"

definition sinkingPlayer :: PlayerRef where
  "sinkingPlayer =
    \<lparr>pos = \<lparr>xv = 100, yv = 580\<rparr>, sz = \<lparr>xv = 32, yv = 32\<rparr>, vel = \<lparr>xv = 0, yv = 8\<rparr>,
     isGrounded = False, isCrouching = False, isDead = False, jumpsRemaining = 0,
     hp = 100, invulnerableUntil = 0, facingRight = True\<rparr>"

definition fallenPlayer :: PlayerRef where
  "fallenPlayer = sinkingPlayer\<lparr>pos := \<lparr>xv = 100, yv = 596\<rparr>\<rparr>"




definition zeroSpeedSpike :: Entity where
  "zeroSpeedSpike =
    (entityAt Spike ''static'' 400 400 40 40)
      \<lparr>patrolRange := Some \<lparr>xv = 80, yv = 0\<rparr>, moveSpeed := Some 0\<rparr>"




definition oldSchoolTankApp :: App where
  "oldSchoolTankApp = freshApp (noModifiers\<lparr>oldSchool := True, tanky := True\<rparr>)"





definition coinLevel :: LevelData where
  "coinLevel =
    \<lparr>spawnPos = \<lparr>xv = 50, yv = 100\<rparr>,
     levelEntities = [entityAt Platform ''floor'' 0 400 1000 40,
                      entityAt Coin ''c1'' 40 90 40 40],
     width = 1000, height = 600\<rparr>"

section \<open>Modifier toggles\<close>

lemma toggleModifier_keeps_exclusion:
  assumes "\<not> (highGravity m \<and> lowGravity m)" and "\<not> (highGravity m \<and> oldSchool m)"
  shows "\<not> (highGravity (toggleModifier k m) \<and> lowGravity (toggleModifier k m)) \<and>
         \<not> (highGravity (toggleModifier k m) \<and> oldSchool (toggleModifier k m))"
  using assms by (cases k) (auto simp: toggleModifier_def setModifier_def Let_def)

lemma toggleAll_keeps_exclusion:
  "\<not> (highGravity m \<and> lowGravity m) \<Longrightarrow> \<not> (highGravity m \<and> oldSchool m) \<Longrightarrow>
   \<not> (highGravity (toggleAll ks m) \<and> lowGravity (toggleAll ks m)) \<and>
   \<not> (highGravity (toggleAll ks m) \<and> oldSchool (toggleAll ks m))"
proof (induction ks arbitrary: m)
  case Nil
  then show ?case by simp
next
  case (Cons k ks)
  have "\<not> (highGravity (toggleModifier k m) \<and> lowGravity (toggleModifier k m))"
       "\<not> (highGravity (toggleModifier k m) \<and> oldSchool (toggleModifier k m))"
    using toggleModifier_keeps_exclusion [OF Cons.prems] by blast+
  from Cons.IH [OF this] show ?case by simp
qed

text \<open>
  C8. Starting from all modifiers off, no sequence of toggles makes heavy gravity active
  together with low gravity, or together with old school; and switching on one member
  of an exclusive pair switches the other off.
\<close>

theorem toggleModifier_mutual_exclusion:
  "(\<not> (highGravity (toggleAll ks noModifiers) \<and> lowGravity (toggleAll ks noModifiers)) \<and>
    \<not> (highGravity (toggleAll ks noModifiers) \<and> oldSchool (toggleAll ks noModifiers))) \<and>
   (\<not> highGravity m \<longrightarrow>
      highGravity (toggleModifier KHighGravity m) \<and>
      \<not> lowGravity (toggleModifier KHighGravity m) \<and>
      \<not> oldSchool (toggleModifier KHighGravity m)) \<and>
   (\<not> lowGravity m \<longrightarrow>
      lowGravity (toggleModifier KLowGravity m) \<and>
      \<not> highGravity (toggleModifier KLowGravity m)) \<and>
   (\<not> oldSchool m \<longrightarrow>
      oldSchool (toggleModifier KOldSchool m) \<and>
      \<not> highGravity (toggleModifier KOldSchool m))"
proof -
  have "\<not> (highGravity noModifiers \<and> lowGravity noModifiers)"
       "\<not> (highGravity noModifiers \<and> oldSchool noModifiers)"
    by (simp_all add: noModifiers_def)
  from toggleAll_keeps_exclusion [OF this] show ?thesis
    by (auto simp: toggleModifier_def setModifier_def Let_def)
qed

theorem toggleModifier_mutual_exclusion_witness:
  "\<not> highGravity (noModifiers\<lparr>lowGravity := True, oldSchool := True\<rparr>) \<and>
   toggleModifier KHighGravity (noModifiers\<lparr>lowGravity := True, oldSchool := True\<rparr>)
     = noModifiers\<lparr>highGravity := True\<rparr> \<and>
   \<not> lowGravity (noModifiers\<lparr>highGravity := True\<rparr>) \<and>
   toggleModifier KLowGravity (noModifiers\<lparr>highGravity := True\<rparr>)
     = noModifiers\<lparr>lowGravity := True\<rparr> \<and>
   \<not> oldSchool (noModifiers\<lparr>highGravity := True\<rparr>) \<and>
   toggleModifier KOldSchool (noModifiers\<lparr>highGravity := True\<rparr>)
     = noModifiers\<lparr>oldSchool := True\<rparr> \<and>
   toggleAll [KLowGravity, KOldSchool, KHighGravity] noModifiers = noModifiers\<lparr>highGravity := True\<rparr> \<and>
   \<not> (highGravity (toggleAll [KLowGravity, KOldSchool, KHighGravity] noModifiers) \<and>
      lowGravity (toggleAll [KLowGravity, KOldSchool, KHighGravity] noModifiers))"
  using toggleModifier_mutual_exclusion [of "[KLowGravity, KOldSchool, KHighGravity]" "noModifiers\<lparr>lowGravity := True, oldSchool := True\<rparr>"]
  by (simp add: toggleModifier_def setModifier_def noModifiers_def)


section \<open>Scoring a completed level\<close>

lemma calculateScoreMultiplier_fold:
  "calculateScoreMultiplier m = foldl fmul 1 (map scoreMult (filter (modifierOn m) scoreOrder))"
  by (simp add: calculateScoreMultiplier_def scoreOrder_def Let_def)

lemma roundDouble_zero: "roundDouble 0 = 0"
  by (simp add: roundDouble_def)

lemma hardcore_multiplier: "calculateScoreMultiplier hardcoreOnly = 2"
  unfolding calculateScoreMultiplier_def hardcoreOnly_def noModifiers_def
  by code_simp

lemma hardcore_perfect_points: "\<lfloor>fmul 100 2\<rfloor> = 200"
  by code_simp

lemma score_handleLevelComplete:
  "score (handleLevelComplete n r s) =
     score s + \<lfloor>fmul (levelPoints (levelRestarts r) (levelDeaths r))
                       (calculateScoreMultiplier (modifiers r))\<rfloor>"
  by (simp add: handleLevelComplete_def Let_def)

text \<open>
  What the code adds to the score, for the record: the table of points, then the
  rounded product in the order of \<open>calculateScoreMultiplier\<close>, then the floor; the
  counters and the modifiers are those of the render \<open>r\<close>.
\<close>

lemma level_score_table:
  "(levelRestarts r \<ge> 2 \<longrightarrow> score (handleLevelComplete n r s) = score s) \<and>
   (levelRestarts r = 1 \<longrightarrow>
      score (handleLevelComplete n r s) = score s +
        \<lfloor>fmul 25 (foldl fmul 1 (map scoreMult (filter (modifierOn (modifiers r)) scoreOrder)))\<rfloor>) \<and>
   (levelRestarts r = 0 \<and> levelDeaths r = 0 \<longrightarrow>
      score (handleLevelComplete n r s) = score s +
        \<lfloor>fmul 100 (foldl fmul 1 (map scoreMult (filter (modifierOn (modifiers r)) scoreOrder)))\<rfloor>) \<and>
   (levelRestarts r = 0 \<and> 1 \<le> levelDeaths r \<and> levelDeaths r \<le> 2 \<longrightarrow>
      score (handleLevelComplete n r s) = score s +
        \<lfloor>fmul 50 (foldl fmul 1 (map scoreMult (filter (modifierOn (modifiers r)) scoreOrder)))\<rfloor>) \<and>
   (levelRestarts r = 0 \<and> 3 \<le> levelDeaths r \<longrightarrow>
      score (handleLevelComplete n r s) = score s +
        \<lfloor>fmul 10 (foldl fmul 1 (map scoreMult (filter (modifierOn (modifiers r)) scoreOrder)))\<rfloor>) \<and>
   (modifiers r = hardcoreOnly \<and> levelRestarts r = 0 \<and> levelDeaths r = 0 \<longrightarrow>
      score (handleLevelComplete n r s) = score s + 200)"
proof -
  have zero: "levelRestarts r \<ge> 2 \<Longrightarrow> score (handleLevelComplete n r s) = score s"
    by (simp add: score_handleLevelComplete levelPoints_def fmul_def roundDouble_zero)
  have hard: "modifiers r = hardcoreOnly \<Longrightarrow> levelRestarts r = 0 \<Longrightarrow> levelDeaths r = 0 \<Longrightarrow>
      score (handleLevelComplete n r s) = score s + 200"
    by (simp add: score_handleLevelComplete levelPoints_def hardcore_multiplier
        hardcore_perfect_points)
  show ?thesis
    using zero hard
    by (auto simp: score_handleLevelComplete levelPoints_def
        simp flip: calculateScoreMultiplier_fold)
qed

text \<open>
  C1. The code does not add the floor of the points times the product of the
  multipliers. With old school (1.5) and tank (0.6) active and a flawless level the
  product is 0.9 and the claim gives \<open>floor (100 * 0.9) = 90\<close>; the code multiplies
  doubles, gets the double just below 0.9 and adds 89. And when the player's death is
  reported in the same tick as the completion, the callback still holds the counters of
  the last render: the level counts as flawless (100) although the death counter the
  update is applied to is 1, for which the table gives 50.
\<close>

theorem level_score_divergence:
  "levelRestarts oldSchoolTankApp = 0 \<and> levelDeaths oldSchoolTankApp = 0 \<and>
   score oldSchoolTankApp = 0 \<and>
   score (handleLevelComplete 11 oldSchoolTankApp oldSchoolTankApp) = 89 \<and>
   \<lfloor>100 * (15 / 10 * (6 / 10)) :: rat\<rfloor> = 90 \<and>
   levelRestarts (handleDeath (freshApp noModifiers)) = 0 \<and>
   levelDeaths (handleDeath (freshApp noModifiers)) = 1 \<and>
   score (handleLevelComplete 11 (freshApp noModifiers) (handleDeath (freshApp noModifiers)))
     = 100"
proof -
  have a: "score (handleLevelComplete 11 oldSchoolTankApp oldSchoolTankApp) = 89"
    unfolding handleLevelComplete_def calculateScoreMultiplier_def levelPoints_def
      oldSchoolTankApp_def freshApp_def noModifiers_def
    by code_simp
  have m0: "calculateScoreMultiplier noModifiers = 1"
    by (simp add: calculateScoreMultiplier_def noModifiers_def)
  have p0: "\<lfloor>fmul 100 1\<rfloor> = 100" by code_simp
  have b: "score (handleLevelComplete 11 (freshApp noModifiers)
             (handleDeath (freshApp noModifiers))) = 100"
    unfolding score_handleLevelComplete
    by (simp add: freshApp_def handleDeath_def levelPoints_def m0 p0 Let_def)
  have c: "levelRestarts oldSchoolTankApp = 0 \<and> levelDeaths oldSchoolTankApp = 0 \<and>
      score oldSchoolTankApp = 0"
    by (simp add: oldSchoolTankApp_def freshApp_def)
  have d: "\<lfloor>100 * (15 / 10 * (6 / 10)) :: rat\<rfloor> = 90" by simp
  have e: "levelRestarts (handleDeath (freshApp noModifiers)) = 0 \<and>
      levelDeaths (handleDeath (freshApp noModifiers)) = 1"
    by (simp add: freshApp_def handleDeath_def Let_def noModifiers_def hardcore_lives_def
        INITIAL_LIVES_def)
  show ?thesis using a b c d e by blast
qed

section \<open>Death and the level restart\<close>

text \<open>
  C3. A death that uses up the last life restores the starting lives (1 with hardcore,
  3 otherwise), puts the coin counter and the collected set back to the level-start
  snapshot, counts a restart and remounts the canvas, whose player and checkpoint start
  at the spawn point and whose coins are those of the snapshot. A death with lives left
  changes neither coins nor collected set and does not remount.
\<close>

theorem handleDeath_rollback:
  "(lives s - 1 \<le> 0 \<longrightarrow>
      lives (handleDeath s) = (if hardcore (modifiers s) then 1 else 3) \<and>
      coins (handleDeath s) = savedCoins s \<and>
      collectedCoinIds (handleDeath s) = savedCollectedCoinIds s \<and>
      levelRestarts (handleDeath s) = levelRestarts s + 1 \<and>
      canvasKey (handleDeath s) \<noteq> canvasKey s \<and>
      pos (player (mountGame level (modifiers (handleDeath s)) maxHp
             (collectedCoinIds (handleDeath s)))) = spawnPos level \<and>
      checkpoint (mountGame level (modifiers (handleDeath s)) maxHp
             (collectedCoinIds (handleDeath s))) = spawnPos level \<and>
      entities (mountGame level (modifiers (handleDeath s)) maxHp
             (collectedCoinIds (handleDeath s)))
        = map (initEntity (savedCollectedCoinIds s)) (levelEntities level)) \<and>
   (lives s - 1 > 0 \<longrightarrow>
      lives (handleDeath s) = lives s - 1 \<and>
      coins (handleDeath s) = coins s \<and>
      collectedCoinIds (handleDeath s) = collectedCoinIds s \<and>
      levelRestarts (handleDeath s) = levelRestarts s \<and>
      canvasKey (handleDeath s) = canvasKey s)"
  by (simp add: handleDeath_def canvasKey_def mountGame_def Let_def
      hardcore_lives_def INITIAL_LIVES_def)

theorem handleDeath_rollback_witness:
  "lives lastLifeApp - 1 \<le> 0 \<and>
   lives (handleDeath lastLifeApp) = 3 \<and>
   coins lastLifeApp = 5 \<and> coins (handleDeath lastLifeApp) = 3 \<and>
   collectedCoinIds (handleDeath lastLifeApp) = {''c1''} \<and>
   levelRestarts (handleDeath lastLifeApp) = 1 \<and>
   pos (player (mountGame demoLevel noModifiers 100 (collectedCoinIds (handleDeath lastLifeApp))))
     = \<lparr>xv = 50, yv = 100\<rparr> \<and>
   lives (freshApp noModifiers) - 1 > 0 \<and>
   lives (handleDeath (freshApp noModifiers)) = 2 \<and>
   coins (handleDeath (freshApp noModifiers)) = coins (freshApp noModifiers)"
  using handleDeath_rollback [of lastLifeApp demoLevel 100]
    handleDeath_rollback [of "freshApp noModifiers" demoLevel 100]
  by (simp add: lastLifeApp_def freshApp_def noModifiers_def demoLevel_def
      hardcore_lives_def INITIAL_LIVES_def handleDeath_def mountGame_def Let_def)

section \<open>Hazard damage\<close>

lemmas stage_defs = update_def respawn_def moveEntities_def moveEntity_def updateCrouch_def
  updateVelX_def applyGravity_def jumpLogic_def xPass_def xPassPlayer_def moveX_def clampX_def
  resolveX_def yPass_def yPassPlayer_def moveY_def resolveY_def interaction_def interact_def
  hazardDamage_def checkCollision_def isSolid_def mountGame_def initEntity_def

lemmas const_defs = GRAVITY_def MOVE_SPEED_def RUN_SPEED_def CROUCH_SPEED_def JUMP_FORCE_def
  BOUNCE_FORCE_def MAX_FALL_SPEED_def PLAYER_SIZE_def CROUCH_HEIGHT_def MAX_JUMPS_def
  DEFAULT_MAX_HP_def INITIAL_LIVES_def EFFECTIVE_GRAVITY_def EFFECTIVE_JUMP_FORCE_def
  EFFECTIVE_MOVE_SPEED_def EFFECTIVE_RUN_SPEED_def EFFECTIVE_CROUCH_SPEED_def
  CURRENT_MAX_JUMPS_def EFFECTIVE_MAX_FALL_def speedScale_def gravityScale_def jumpScale_def
  oldSchool_maxJumps_def noModifiers_def

lemma spike_tick:
  "fst (update spikeLevel noModifiers 100 False (mountGame spikeLevel noModifiers 100 {}))
     = [OnHealthUpdate (- 900)]"
  by (simp add: stage_defs const_defs spikeLevel_def killSpike_def entityAt_def Let_def)

lemma hazardDamage_gated:
  "tm \<le> invulnerableUntil p \<Longrightarrow> hazardDamage tm e p = ([], p)"
  by (simp add: hazardDamage_def)

lemma hazardDamage_lethal:
  assumes "tm > invulnerableUntil p"
    and "hp p - (case damage e of None \<Rightarrow> 1000 | Some d \<Rightarrow> d) \<le> 0"
  shows "hazardDamage tm e p =
           ([OnHealthUpdate (hp p - (case damage e of None \<Rightarrow> 1000 | Some d \<Rightarrow> d))],
            p\<lparr>hp := hp p - (case damage e of None \<Rightarrow> 1000 | Some d \<Rightarrow> d), isDead := True\<rparr>)"
  using assms by (simp add: hazardDamage_def Let_def)

lemma hazardDamage_hurt:
  assumes "tm > invulnerableUntil p"
    and "hp p - (case damage e of None \<Rightarrow> 1000 | Some d \<Rightarrow> d) > 0"
  shows "hazardDamage tm e p =
           ([OnHealthUpdate (hp p - (case damage e of None \<Rightarrow> 1000 | Some d \<Rightarrow> d)),
             PlaySound Hurt],
            p\<lparr>hp := hp p - (case damage e of None \<Rightarrow> 1000 | Some d \<Rightarrow> d),
              invulnerableUntil := tm + 60,
              vel := \<lparr>xv = - xv (vel p) * (15 / 10), yv = - 5\<rparr>\<rparr>)"
  using assms by (simp add: hazardDamage_def Let_def)

lemma hazardDamage_cases:
  "hazardDamage tm e p = ([], p) \<or>
   (\<exists>h. h \<le> 0 \<and> hazardDamage tm e p = ([OnHealthUpdate h], p\<lparr>hp := h, isDead := True\<rparr>)) \<or>
   (\<exists>h. h > 0 \<and> tm > invulnerableUntil p \<and> hazardDamage tm e p =
      ([OnHealthUpdate h, PlaySound Hurt],
       p\<lparr>hp := h, invulnerableUntil := tm + 60,
         vel := \<lparr>xv = - xv (vel p) * (15 / 10), yv = - 5\<rparr>\<rparr>))"
  by (auto simp: hazardDamage_def Let_def)

text \<open>What one step of the interaction loop can do to the player and the event list.\<close>

lemma interact_player_cases:
  "(iplayer (snd (snd (interact tm e st))) = iplayer st \<and>
      (\<forall>h. OnHealthUpdate h \<notin> set (fst (interact tm e st))) \<and>
      PlaySound Hurt \<notin> set (fst (interact tm e st))) \<or>
   (fst (interact tm e st), iplayer (snd (snd (interact tm e st)))) = hazardDamage tm e (iplayer st)"
  by (auto simp: interact_def Let_def split: prod.splits)

lemma interact_isDead_mono:
  "isDead (iplayer st) \<Longrightarrow> isDead (iplayer (snd (snd (interact tm e st))))"
  using interact_player_cases [of tm e st] hazardDamage_cases [of tm e "iplayer st"]
  by (auto simp: prod_eq_iff)

lemma interact_nonpositive_report:
  "OnHealthUpdate h \<in> set (fst (interact tm e st)) \<Longrightarrow> h \<le> 0 \<Longrightarrow>
   isDead (iplayer (snd (snd (interact tm e st))))"
  using interact_player_cases [of tm e st] hazardDamage_cases [of tm e "iplayer st"]
  by (auto simp: prod_eq_iff)

lemma interactAll_isDead_mono:
  "isDead (iplayer st) \<Longrightarrow> isDead (iplayer (snd (snd (interactAll tm es st))))"
proof (induction es arbitrary: st)
  case Nil
  then show ?case by simp
next
  case (Cons e es)
  from Cons.IH [OF interact_isDead_mono [OF Cons.prems, of tm e]]
  show ?case by (simp add: split_beta)
qed

lemma interactAll_nonpositive_report:
  "OnHealthUpdate h \<in> set (fst (interactAll tm es st)) \<Longrightarrow> h \<le> 0 \<Longrightarrow>
   isDead (iplayer (snd (snd (interactAll tm es st))))"
proof (induction es arbitrary: st)
  case Nil
  then show ?case by simp
next
  case (Cons e es)
  from Cons.prems(1) consider
      (head) "OnHealthUpdate h \<in> set (fst (interact tm e st))"
    | (tail) "OnHealthUpdate h \<in> set (fst (interactAll tm es (snd (snd (interact tm e st)))))"
    by (auto simp: split_beta)
  then show ?case
  proof cases
    case head
    from interactAll_isDead_mono [OF interact_nonpositive_report [OF head Cons.prems(2)]]
    show ?thesis by (simp add: split_beta)
  next
    case tail
    from Cons.IH [OF tail Cons.prems(2)] show ?thesis by (simp add: split_beta)
  qed
qed

lemma update_events:
  "\<not> paused \<Longrightarrow>
   fst (update level m maxHp paused g) =
     fst (respawn m maxHp (g\<lparr>time := time g + 1\<rparr>)) @
     fst (jumpLogic m (applyGravity m (updateVelX m (updateCrouch (moveEntities
            (snd (respawn m maxHp (g\<lparr>time := time g + 1\<rparr>)))))))) @
     fst (yPass level m (xPass level (snd (jumpLogic m (applyGravity m (updateVelX m
            (updateCrouch (moveEntities (snd (respawn m maxHp (g\<lparr>time := time g + 1\<rparr>)))))))))))
     @ fst (interaction (snd (yPass level m (xPass level (snd (jumpLogic m (applyGravity m
            (updateVelX m (updateCrouch (moveEntities
              (snd (respawn m maxHp (g\<lparr>time := time g + 1\<rparr>)))))))))))))"
  by (simp add: update_def Let_def split_beta)

lemma update_state:
  "\<not> paused \<Longrightarrow>
   snd (update level m maxHp paused g) =
     snd (interaction (snd (yPass level m (xPass level (snd (jumpLogic m (applyGravity m
            (updateVelX m (updateCrouch (moveEntities
              (snd (respawn m maxHp (g\<lparr>time := time g + 1\<rparr>)))))))))))))"
  by (simp add: update_def Let_def split_beta)


lemma jumpLogic_no_report: "OnHealthUpdate h \<notin> set (fst (jumpLogic m g))"
  by (simp add: jumpLogic_def Let_def split_beta)

lemma resolveY_no_report: "OnHealthUpdate h \<notin> set (fst (resolveY m e st))"
  by (simp add: resolveY_def Let_def)

lemma resolveYAll_no_report: "OnHealthUpdate h \<notin> set (fst (resolveYAll m es st))"
proof (induction es arbitrary: st)
  case Nil
  then show ?case by simp
next
  case (Cons e es)
  then show ?case by (simp add: split_beta resolveY_no_report)
qed

lemma yPass_no_report: "OnHealthUpdate h \<notin> set (fst (yPass level m g))"
  by (simp add: yPass_def yPassPlayer_def Let_def split_beta resolveYAll_no_report)

lemma respawn_report: "OnHealthUpdate h \<in> set (fst (respawn m maxHp g)) \<Longrightarrow> h = maxHp"
  by (simp add: respawn_def split: if_splits)

lemma interaction_nonpositive_report:
  "OnHealthUpdate h \<in> set (fst (interaction g)) \<Longrightarrow> h \<le> 0 \<Longrightarrow>
   isDead (player (snd (interaction g)))"
  using interactAll_nonpositive_report [of h "time g" "entities g"
      "\<lparr>iplayer = player g, icheckpoint = checkpoint g,
        ilevelCompleteTriggered = levelCompleteTriggered g\<rparr>"]
  by (simp add: interaction_def Let_def split_beta)

lemma update_nonpositive_report:
  assumes "0 < maxHp" and "OnHealthUpdate h \<in> set (fst (update level m maxHp paused g))"
    and "h \<le> 0"
  shows "isDead (player (snd (update level m maxHp paused g)))"
proof -
  let ?g1 = "snd (respawn m maxHp (g\<lparr>time := time g + 1\<rparr>))"
  let ?g2 = "applyGravity m (updateVelX m (updateCrouch (moveEntities ?g1)))"
  let ?g3 = "xPass level (snd (jumpLogic m ?g2))"
  let ?g4 = "snd (yPass level m ?g3)"
  from assms(2) have np: "\<not> paused" by (auto simp: update_def)
  from assms(2) [unfolded update_events [OF np]] assms(1,3)
  have "OnHealthUpdate h \<in> set (fst (interaction ?g4))"
    using jumpLogic_no_report yPass_no_report respawn_report by fastforce
  from interaction_nonpositive_report [OF this assms(3)]
  show ?thesis by (simp add: update_state [OF np])
qed

lemma hazardDamage_reports_raw:
  "tm > invulnerableUntil p \<Longrightarrow>
   OnHealthUpdate h \<in> set (fst (hazardDamage tm e p)) \<longleftrightarrow>
     h = hp p - (case damage e of None \<Rightarrow> 1000 | Some d \<Rightarrow> d)"
  by (auto simp: hazardDamage_def Let_def)

text \<open>
  C4, as stated, fails in its first part: the HP the simulation reports through
  \<open>onHealthUpdate\<close> is negative after an instant-kill spike hits a player of 100 HP.
\<close>

theorem reported_hp_negative_counterexample:
  "fst (update spikeLevel noModifiers 100 False (mountGame spikeLevel noModifiers 100 {}))
     = [OnHealthUpdate (- 900)] \<and>
   currentHp (setCurrentHp (- 900) (freshApp noModifiers)) < 0"
  by (simp add: spike_tick setCurrentHp_def)

text \<open>
  C4, amended. A hazard hit reports the raw HP after the damage, which is negative when
  the damage exceeds the HP; the value is stored as it comes and only the HUD clamps it,
  showing \<open>max 0 hp\<close>, which is never negative. A hazard hit that takes HP to zero or
  below marks the player dead and leaves the velocity alone (no knockback, no hurt
  sound); the velocity changes only when HP stays positive. In a whole tick, a reported
  HP of zero or less means the player is dead at the end of that tick.
\<close>

theorem lethal_damage_kills_without_knockback:
  "(tm > invulnerableUntil p \<longrightarrow>
      (OnHealthUpdate r \<in> set (fst (hazardDamage tm e p)) \<longleftrightarrow>
         r = hp p - (case damage e of None \<Rightarrow> 1000 | Some d \<Rightarrow> d))) \<and>
   currentHp (setCurrentHp h' s) = h' \<and>
   hudHp (setCurrentHp h' s) = max 0 h' \<and>
   0 \<le> hudHp (setCurrentHp h' s) \<and>
   (tm > invulnerableUntil p \<and> hp p - (case damage e of None \<Rightarrow> 1000 | Some d \<Rightarrow> d) \<le> 0 \<longrightarrow>
      isDead (snd (hazardDamage tm e p)) \<and>
      vel (snd (hazardDamage tm e p)) = vel p \<and>
      PlaySound Hurt \<notin> set (fst (hazardDamage tm e p))) \<and>
   (vel (snd (hazardDamage tm e p)) \<noteq> vel p \<longrightarrow> hp (snd (hazardDamage tm e p)) > 0) \<and>
   (0 < maxHp \<and> OnHealthUpdate h \<in> set (fst (update level m maxHp paused g)) \<and> h \<le> 0 \<longrightarrow>
      isDead (player (snd (update level m maxHp paused g))))"
proof -
  have r: "tm > invulnerableUntil p \<longrightarrow>
      (OnHealthUpdate r \<in> set (fst (hazardDamage tm e p)) \<longleftrightarrow>
         r = hp p - (case damage e of None \<Rightarrow> 1000 | Some d \<Rightarrow> d))"
    using hazardDamage_reports_raw by blast
  have a: "currentHp (setCurrentHp h' s) = h' \<and> hudHp (setCurrentHp h' s) = max 0 h' \<and>
      0 \<le> hudHp (setCurrentHp h' s)"
    by (simp add: hudHp_def setCurrentHp_def)
  have b: "tm > invulnerableUntil p \<Longrightarrow>
      hp p - (case damage e of None \<Rightarrow> 1000 | Some d \<Rightarrow> d) \<le> 0 \<Longrightarrow>
      isDead (snd (hazardDamage tm e p)) \<and>
      vel (snd (hazardDamage tm e p)) = vel p \<and>
      PlaySound Hurt \<notin> set (fst (hazardDamage tm e p))"
    by (simp add: hazardDamage_lethal)
  have c: "vel (snd (hazardDamage tm e p)) \<noteq> vel p \<Longrightarrow> hp (snd (hazardDamage tm e p)) > 0"
    using hazardDamage_cases [of tm e p] by auto
  show ?thesis using r a b c update_nonpositive_report by blast
qed

theorem lethal_damage_kills_without_knockback_witness:
  "5 > invulnerableUntil walkingPlayer \<and>
   OnHealthUpdate (- 900) \<in> set (fst (hazardDamage 5 killSpike walkingPlayer)) \<and>
   currentHp (setCurrentHp (- 900) (freshApp noModifiers)) = - 900 \<and>
   hudHp (setCurrentHp (- 900) (freshApp noModifiers)) = 0 \<and>
   hp walkingPlayer - (case damage killSpike of None \<Rightarrow> 1000 | Some d \<Rightarrow> d) \<le> 0 \<and>
   isDead (snd (hazardDamage 5 killSpike walkingPlayer)) \<and>
   vel (snd (hazardDamage 5 killSpike walkingPlayer)) = \<lparr>xv = 2, yv = 0\<rparr> \<and>
   vel (snd (hazardDamage 5 weakSpike walkingPlayer)) \<noteq> vel walkingPlayer \<and>
   hp (snd (hazardDamage 5 weakSpike walkingPlayer)) = 75 \<and>
   (0::real) < 100 \<and>
   OnHealthUpdate (- 900) \<in>
     set (fst (update spikeLevel noModifiers 100 False (mountGame spikeLevel noModifiers 100 {}))) \<and>
   isDead (player (snd (update spikeLevel noModifiers 100 False
     (mountGame spikeLevel noModifiers 100 {}))))"
  using lethal_damage_kills_without_knockback
     [where tm = 5 and p = walkingPlayer and e = killSpike and r = "- 900" and h' = "- 900"
        and s = "freshApp noModifiers" and maxHp = 100 and h = "- 900" and level = spikeLevel
        and m = noModifiers and paused = False
        and g = "mountGame spikeLevel noModifiers 100 {}"]
    lethal_damage_kills_without_knockback
     [where tm = 5 and p = walkingPlayer and e = weakSpike and r = 75 and h' = "- 900"
        and s = "freshApp noModifiers" and maxHp = 100 and h = "- 900" and level = spikeLevel
        and m = noModifiers and paused = False
        and g = "mountGame spikeLevel noModifiers 100 {}"]
  by (simp add: spike_tick hudHp_def setCurrentHp_def freshApp_def walkingPlayer_def
      killSpike_def weakSpike_def entityAt_def hazardDamage_def Let_def)

lemma interact_hazard_gated:
  "etype e = Spike \<or> etype e = Lava \<Longrightarrow> tm \<le> invulnerableUntil (iplayer st) \<Longrightarrow>
   interact tm e st = ([], e, st)"
  by (auto simp: interact_def hazardDamage_gated)

lemma interact_hazard_hurt:
  assumes "etype e = Spike \<or> etype e = Lava" and "active e"
    and "checkCollision (iplayer st) e" and "tm > invulnerableUntil (iplayer st)"
    and "hp (iplayer st) - (case damage e of None \<Rightarrow> 1000 | Some d \<Rightarrow> d) > 0"
  shows "interact tm e st =
     ([OnHealthUpdate (hp (iplayer st) - (case damage e of None \<Rightarrow> 1000 | Some d \<Rightarrow> d)),
       PlaySound Hurt], e,
      st\<lparr>iplayer := (iplayer st)
           \<lparr>hp := hp (iplayer st) - (case damage e of None \<Rightarrow> 1000 | Some d \<Rightarrow> d),
            invulnerableUntil := tm + 60,
            vel := \<lparr>xv = - xv (vel (iplayer st)) * (15 / 10), yv = - 5\<rparr>\<rparr>\<rparr>)"
  using assms by (auto simp: interact_def hazardDamage_hurt)

lemma interact_keeps_window:
  "tm \<le> invulnerableUntil (iplayer st) \<Longrightarrow>
   tm \<le> invulnerableUntil (iplayer (snd (snd (interact tm e st)))) \<and>
   PlaySound Hurt \<notin> set (fst (interact tm e st))"
  using interact_player_cases [of tm e st]
  by (auto simp: hazardDamage_gated prod_eq_iff)

lemma interactAll_window_no_hurt:
  "tm \<le> invulnerableUntil (iplayer st) \<Longrightarrow> PlaySound Hurt \<notin> set (fst (interactAll tm es st))"
proof (induction es arbitrary: st)
  case Nil
  then show ?case by simp
next
  case (Cons e es)
  from interact_keeps_window [OF Cons.prems, of e] Cons.IH
  show ?case by (simp add: split_beta)
qed

lemma interact_hurt_opens_window:
  "PlaySound Hurt \<in> set (fst (interact tm e st)) \<Longrightarrow>
   count_list (fst (interact tm e st)) (PlaySound Hurt) = 1 \<and>
   tm \<le> invulnerableUntil (iplayer (snd (snd (interact tm e st))))"
  using interact_player_cases [of tm e st] hazardDamage_cases [of tm e "iplayer st"]
  by (auto simp: prod_eq_iff)

lemma count_list_zero: "x \<notin> set xs \<Longrightarrow> count_list xs x = 0"
  by (induction xs) auto

lemma interactAll_hurt_at_most_once:
  "count_list (fst (interactAll tm es st)) (PlaySound Hurt) \<le> 1"
proof (induction es arbitrary: st)
  case Nil
  then show ?case by simp
next
  case (Cons e es)
  show ?case
  proof (cases "PlaySound Hurt \<in> set (fst (interact tm e st))")
    case True
    from interact_hurt_opens_window [OF True]
    have one: "count_list (fst (interact tm e st)) (PlaySound Hurt) = 1"
      and win: "tm \<le> invulnerableUntil (iplayer (snd (snd (interact tm e st))))" by simp_all
    from interactAll_window_no_hurt [OF win, of es]
    have "count_list (fst (interactAll tm es (snd (snd (interact tm e st))))) (PlaySound Hurt) = 0"
      by (rule count_list_zero)
    with one show ?thesis by (simp add: split_beta)
  next
    case False
    then have "count_list (fst (interact tm e st)) (PlaySound Hurt) = 0"
      by (rule count_list_zero)
    with Cons.IH [of "snd (snd (interact tm e st))"] show ?thesis by (simp add: split_beta)
  qed
qed

text \<open>
  C5. Inside the invulnerability window a hazard overlap does nothing. A hit that leaves
  HP positive reduces HP once, sends one hurt event and opens a window of 60 ticks, in
  which a second hazard overlap (also on the same tick, later in the entity list)
  changes no state and sends no event; so the pair yields exactly one hurt event. No
  interaction pass sends more than one hurt event.
\<close>

theorem invulnerability_gates_repeat_damage:
  "((etype e2 = Spike \<or> etype e2 = Lava) \<and> tm' \<le> invulnerableUntil (iplayer st) \<longrightarrow>
      interact tm' e2 st = ([], e2, st)) \<and>
   ((etype e1 = Spike \<or> etype e1 = Lava) \<and> active e1 \<and> checkCollision (iplayer st) e1 \<and>
    tm > invulnerableUntil (iplayer st) \<and>
    hp (iplayer st) - (case damage e1 of None \<Rightarrow> 1000 | Some d \<Rightarrow> d) > 0 \<and>
    (etype e2 = Spike \<or> etype e2 = Lava) \<longrightarrow>
      fst (interact tm e1 st) =
        [OnHealthUpdate (hp (iplayer st) - (case damage e1 of None \<Rightarrow> 1000 | Some d \<Rightarrow> d)),
         PlaySound Hurt] \<and>
      hp (iplayer (snd (snd (interact tm e1 st)))) =
        hp (iplayer st) - (case damage e1 of None \<Rightarrow> 1000 | Some d \<Rightarrow> d) \<and>
      invulnerableUntil (iplayer (snd (snd (interact tm e1 st)))) = tm + 60 \<and>
      (\<forall>t2. t2 \<le> tm + 60 \<longrightarrow>
         interact t2 e2 (snd (snd (interact tm e1 st))) = ([], e2, snd (snd (interact tm e1 st)))) \<and>
      interactAll tm [e1, e2] st =
        ([OnHealthUpdate (hp (iplayer st) - (case damage e1 of None \<Rightarrow> 1000 | Some d \<Rightarrow> d)),
          PlaySound Hurt], [e1, e2], snd (snd (interact tm e1 st)))) \<and>
   count_list (fst (interactAll tm es st)) (PlaySound Hurt) \<le> 1"
proof -
  have a: "(etype e2 = Spike \<or> etype e2 = Lava) \<and> tm' \<le> invulnerableUntil (iplayer st) \<longrightarrow>
      interact tm' e2 st = ([], e2, st)"
    using interact_hazard_gated by blast
  have b: "fst (interact tm e1 st) =
        [OnHealthUpdate (hp (iplayer st) - (case damage e1 of None \<Rightarrow> 1000 | Some d \<Rightarrow> d)),
         PlaySound Hurt] \<and>
      hp (iplayer (snd (snd (interact tm e1 st)))) =
        hp (iplayer st) - (case damage e1 of None \<Rightarrow> 1000 | Some d \<Rightarrow> d) \<and>
      invulnerableUntil (iplayer (snd (snd (interact tm e1 st)))) = tm + 60 \<and>
      (\<forall>t2. t2 \<le> tm + 60 \<longrightarrow>
         interact t2 e2 (snd (snd (interact tm e1 st))) = ([], e2, snd (snd (interact tm e1 st)))) \<and>
      interactAll tm [e1, e2] st =
        ([OnHealthUpdate (hp (iplayer st) - (case damage e1 of None \<Rightarrow> 1000 | Some d \<Rightarrow> d)),
          PlaySound Hurt], [e1, e2], snd (snd (interact tm e1 st)))"
    if h: "etype e1 = Spike \<or> etype e1 = Lava" "active e1" "checkCollision (iplayer st) e1"
      "tm > invulnerableUntil (iplayer st)"
      "hp (iplayer st) - (case damage e1 of None \<Rightarrow> 1000 | Some d \<Rightarrow> d) > 0"
      and h2: "etype e2 = Spike \<or> etype e2 = Lava"
  proof -
    note hit = interact_hazard_hurt [OF h]
    have win: "invulnerableUntil (iplayer (snd (snd (interact tm e1 st)))) = tm + 60"
      by (simp add: hit)
    have gate: "interact t2 e2 (snd (snd (interact tm e1 st)))
                  = ([], e2, snd (snd (interact tm e1 st)))" if "t2 \<le> tm + 60" for t2
      using interact_hazard_gated [OF h2, of t2 "snd (snd (interact tm e1 st))"] that win
      by simp
    from gate [of tm] have "interactAll tm [e1, e2] st =
        (fst (interact tm e1 st), [e1, e2], snd (snd (interact tm e1 st)))"
      by (simp add: split_beta hit)
    then show ?thesis using gate win by (simp add: hit)
  qed
  show ?thesis using a b interactAll_hurt_at_most_once by blast
qed

theorem invulnerability_gates_repeat_damage_witness:
  "(etype weakSpike = Spike \<or> etype weakSpike = Lava) \<and> active weakSpike \<and>
   checkCollision (iplayer walkingInteraction) weakSpike \<and>
   5 > invulnerableUntil (iplayer walkingInteraction) \<and>
   hp (iplayer walkingInteraction) - (case damage weakSpike of None \<Rightarrow> 1000 | Some d \<Rightarrow> d) > 0 \<and>
   (etype killSpike = Spike \<or> etype killSpike = Lava) \<and>
   checkCollision (iplayer (snd (snd (interact 5 weakSpike walkingInteraction)))) killSpike \<and>
   fst (interactAll 5 [weakSpike, killSpike] walkingInteraction)
     = [OnHealthUpdate 75, PlaySound Hurt] \<and>
   hp (iplayer (snd (snd (interactAll 5 [weakSpike, killSpike] walkingInteraction)))) = 75 \<and>
   \<not> isDead (iplayer (snd (snd (interactAll 5 [weakSpike, killSpike] walkingInteraction)))) \<and>
   (65 \<le> invulnerableUntil (iplayer (snd (snd (interact 5 weakSpike walkingInteraction)))) \<and>
    interact 65 killSpike (snd (snd (interact 5 weakSpike walkingInteraction)))
      = ([], killSpike, snd (snd (interact 5 weakSpike walkingInteraction))))"
  using invulnerability_gates_repeat_damage
     [of killSpike 65 "snd (snd (interact 5 weakSpike walkingInteraction))" weakSpike 5
         "[weakSpike, killSpike]"]
    invulnerability_gates_repeat_damage
     [of killSpike 5 walkingInteraction weakSpike 5 "[weakSpike, killSpike]"]
  by (simp add: walkingInteraction_def walkingPlayer_def weakSpike_def killSpike_def
      entityAt_def interact_def hazardDamage_def checkCollision_def Let_def)

section \<open>The vertical pass and the fall out of the level\<close>

lemma resolveY_isDead: "isDead (fst (snd (resolveY m e st))) = isDead (fst st)"
  by (simp add: resolveY_def Let_def)

lemma resolveYAll_isDead: "isDead (fst (snd (resolveYAll m es st))) = isDead (fst st)"
proof (induction es arbitrary: st)
  case Nil
  then show ?case by simp
next
  case (Cons e es)
  from Cons.IH [of "snd (resolveY m e st)"] show ?case
    by (simp add: split_beta resolveY_isDead)
qed

lemma yPassPlayer_isDead:
  "isDead (snd (yPassPlayer level m es p)) \<longleftrightarrow>
     isDead p \<or> height level < yv (pos p) + yv (vel p)"
  using resolveYAll_isDead [of m es "(moveY level p, False)"]
  by (simp add: yPassPlayer_def moveY_def Let_def split_beta)

text \<open>
  C6, as stated, fails: a player whose bottom edge is below the level's height but whose
  top edge is not is left alive by the vertical pass.
\<close>

theorem fall_out_bottom_edge_counterexample:
  "height demoLevel <
     yv (pos (snd (yPassPlayer demoLevel noModifiers (levelEntities demoLevel) sinkingPlayer))) +
     yv (sz (snd (yPassPlayer demoLevel noModifiers (levelEntities demoLevel) sinkingPlayer))) \<and>
   \<not> isDead (snd (yPassPlayer demoLevel noModifiers (levelEntities demoLevel) sinkingPlayer))"
  by (simp add: yPassPlayer_def moveY_def resolveY_def checkCollision_def isSolid_def
      demoLevel_def sinkingPlayer_def entityAt_def Let_def)

text \<open>
  C6, amended. The vertical pass marks the player dead exactly when the top edge
  (\<open>pos.y\<close> after the vertical displacement) exceeds the level's height; a player that
  enters the pass alive leaves it dead if and only if that holds, whatever the HP.
\<close>

theorem fall_out_top_edge:
  "(isDead (snd (yPassPlayer level m es p)) \<longleftrightarrow>
      isDead p \<or> height level < yv (pos p) + yv (vel p)) \<and>
   (\<not> isDead p \<longrightarrow>
      (isDead (snd (yPassPlayer level m es p)) \<longleftrightarrow> height level < yv (pos p) + yv (vel p))) \<and>
   isDead (snd (yPassPlayer level m es (p\<lparr>hp := h\<rparr>))) = isDead (snd (yPassPlayer level m es p))"
  by (simp add: yPassPlayer_isDead)

theorem fall_out_top_edge_witness:
  "\<not> isDead fallenPlayer \<and>
   height demoLevel < yv (pos fallenPlayer) + yv (vel fallenPlayer) \<and>
   isDead (snd (yPassPlayer demoLevel noModifiers (levelEntities demoLevel) fallenPlayer)) \<and>
   \<not> isDead sinkingPlayer \<and>
   \<not> height demoLevel < yv (pos sinkingPlayer) + yv (vel sinkingPlayer) \<and>
   \<not> isDead (snd (yPassPlayer demoLevel noModifiers (levelEntities demoLevel) sinkingPlayer))"
  using fall_out_top_edge [of demoLevel noModifiers "levelEntities demoLevel" fallenPlayer 1]
    fall_out_top_edge [of demoLevel noModifiers "levelEntities demoLevel" sinkingPlayer 1]
  by (simp add: demoLevel_def fallenPlayer_def sinkingPlayer_def)

section \<open>The horizontal pass and the level bounds\<close>

lemma resolveX_sz: "sz (resolveX e p) = sz p"
  by (simp add: resolveX_def Let_def)

lemma resolveXAll_sz: "sz (resolveXAll es p) = sz p"
  by (induction es arbitrary: p) (simp_all add: resolveX_sz)




lemma resolveX_vel_zero: "xv (vel p) = 0 \<Longrightarrow> xv (vel (resolveX e p)) = 0"
  by (simp add: resolveX_def Let_def)







section \<open>Moving entities\<close>

lemma sin_twentieth_pos: "0 < sin (1 / 20 :: real)"
proof -
  have "(1 / 20 :: real) < pi" using pi_ge_two by linarith
  then show ?thesis by (simp add: sin_gt_zero)
qed

text \<open>
  C2. An entity with a patrol range and \<open>moveSpeed = 0\<close> is moved with the default speed
  \<open>0.05\<close>: after the first tick it has left its start position.
\<close>

theorem zero_speed_entity_moves:
  "moveSpeed (initEntity {} zeroSpeedSpike) = Some 0 \<and>
   pos (initEntity {} zeroSpeedSpike) = \<lparr>xv = 400, yv = 400\<rparr> \<and>
   pos (moveEntity 1 (initEntity {} zeroSpeedSpike))
     = \<lparr>xv = 400 + sin (1 / 20) * 80, yv = 400\<rparr> \<and>
   pos (moveEntity 1 (initEntity {} zeroSpeedSpike)) \<noteq> pos (initEntity {} zeroSpeedSpike)"
  using sin_twentieth_pos
  by (simp add: moveEntity_def initEntity_def zeroSpeedSpike_def entityAt_def Let_def)

section \<open>The jump latch\<close>



































section \<open>Inactive entities\<close>

subsection \<open>The invariant\<close>

lemma initEntities_invariant: "onlyCoinsInactive (map (initEntity ids) es)"
  by (simp add: onlyCoinsInactive_def initEntity_def)

lemma moveEntity_active: "active (moveEntity t e) = active e"
  by (simp add: moveEntity_def Let_def split: option.splits)

lemma moveEntity_etype: "etype (moveEntity t e) = etype e"
  by (simp add: moveEntity_def Let_def split: option.splits)

lemma moveEntity_participates: "participates (moveEntity t e) = participates e"
  by (simp add: participates_def moveEntity_active moveEntity_etype)

lemma moveEntities_invariant:
  "onlyCoinsInactive es \<Longrightarrow> onlyCoinsInactive (map (moveEntity t) es)"
  by (simp add: onlyCoinsInactive_def moveEntity_active moveEntity_etype)

lemma interact_invariant:
  "active e \<or> etype e = Coin \<Longrightarrow>
   active (fst (snd (interact tm e st))) \<or> etype (fst (snd (interact tm e st))) = Coin"
  by (auto simp: interact_def split_beta)

lemma interactAll_invariant:
  "onlyCoinsInactive es \<Longrightarrow> onlyCoinsInactive (fst (snd (interactAll tm es st)))"
proof (induction es arbitrary: st)
  case Nil
  then show ?case by simp
next
  case (Cons e es)
  from Cons.prems have h: "active e \<or> etype e = Coin" and t: "onlyCoinsInactive es"
    by (simp_all add: onlyCoinsInactive_def)
  from interact_invariant [OF h, of tm st] Cons.IH [OF t, of "snd (snd (interact tm e st))"]
  show ?case by (simp add: split_beta onlyCoinsInactive_def)
qed

lemma respawn_entities: "entities (snd (respawn m maxHp g)) = entities g"
  by (simp add: respawn_def)

lemma updateCrouch_entities: "entities (updateCrouch g) = entities g"
  by (simp add: updateCrouch_def Let_def)

lemma updateVelX_entities: "entities (updateVelX m g) = entities g"
  by (simp add: updateVelX_def Let_def split_beta)

lemma applyGravity_entities: "entities (applyGravity m g) = entities g"
  by (simp add: applyGravity_def Let_def)

lemma jumpLogic_entities: "entities (snd (jumpLogic m g)) = entities g"
  by (simp add: jumpLogic_def Let_def split_beta)

lemma xPass_entities: "entities (xPass level g) = entities g"
  by (simp add: xPass_def)

lemma yPass_entities: "entities (snd (yPass level m g)) = entities g"
  by (simp add: yPass_def split_beta)

lemmas stage_entities = respawn_entities updateCrouch_entities updateVelX_entities
  applyGravity_entities jumpLogic_entities xPass_entities yPass_entities

lemma interaction_invariant:
  "onlyCoinsInactive (entities g) \<Longrightarrow> onlyCoinsInactive (entities (snd (interaction g)))"
  using interactAll_invariant by (simp add: interaction_def split_beta)

lemma update_invariant:
  assumes "onlyCoinsInactive (entities g)"
  shows "onlyCoinsInactive (entities (snd (update level m maxHp paused g)))"
proof (cases paused)
  case True
  with assms show ?thesis by (simp add: update_def)
next
  case False
  have "onlyCoinsInactive (entities (moveEntities (snd (respawn m maxHp (g\<lparr>time := time g + 1\<rparr>)))))"
    using moveEntities_invariant [OF assms] by (simp add: moveEntities_def respawn_entities)
  then show ?thesis
    by (simp add: update_state [OF False] interaction_invariant stage_entities)
qed

lemma handleKey_entities: "entities (handleKey k g) = entities g"
  by (cases k) (auto simp: handleKeyDown_def handleKeyUp_def Let_def)

lemma fold_handleKey_entities: "entities (fold handleKey ks g) = entities g"
  by (induction ks arbitrary: g) (simp_all add: handleKey_entities)

lemma runFrames_invariant:
  "onlyCoinsInactive (entities g) \<Longrightarrow>
   onlyCoinsInactive (entities (snd (runFrames level m maxHp fs g)))"
proof (induction fs arbitrary: g)
  case Nil
  then show ?case by simp
next
  case (Cons f fs)
  have "onlyCoinsInactive (entities (snd (frame level m maxHp f g)))"
    using update_invariant [of "fold handleKey (fst f) g"] Cons.prems
    by (simp add: frame_def fold_handleKey_entities)
  from Cons.IH [OF this] show ?case by (simp add: split_beta)
qed

lemma reachable_invariant: "onlyCoinsInactive (entities (reachable level m maxHp ids fs))"
  using runFrames_invariant [of "mountGame level m maxHp ids"] initEntities_invariant
  by (simp add: reachable_def mountGame_def)

subsection \<open>Passes skip what does not participate\<close>

lemma inactive_coin_not_solid:
  "active e \<or> etype e = Coin \<Longrightarrow> \<not> participates e \<Longrightarrow> \<not> isSolid e"
  by (auto simp: participates_def isSolid_def)

lemma resolveXAll_frame:
  "onlyCoinsInactive es \<Longrightarrow> resolveXAll es p = resolveXAll (filter participates es) p"
proof (induction es arbitrary: p)
  case Nil
  then show ?case by simp
next
  case (Cons e es)
  from Cons.prems have h: "active e \<or> etype e = Coin" and t: "onlyCoinsInactive es"
    by (simp_all add: onlyCoinsInactive_def)
  show ?case
  proof (cases "participates e")
    case True
    with Cons.IH [OF t] show ?thesis by simp
  next
    case False
    from inactive_coin_not_solid [OF h False] have "resolveX e p = p"
      by (simp add: resolveX_def)
    with False Cons.IH [OF t] show ?thesis by simp
  qed
qed

lemma resolveYAll_frame:
  "onlyCoinsInactive es \<Longrightarrow> resolveYAll m es st = resolveYAll m (filter participates es) st"
proof (induction es arbitrary: st)
  case Nil
  then show ?case by simp
next
  case (Cons e es)
  from Cons.prems have h: "active e \<or> etype e = Coin" and t: "onlyCoinsInactive es"
    by (simp_all add: onlyCoinsInactive_def)
  show ?case
  proof (cases "participates e")
    case True
    with Cons.IH [OF t] show ?thesis by simp
  next
    case False
    from inactive_coin_not_solid [OF h False] have "resolveY m e st = ([], st)"
      by (simp add: resolveY_def Let_def)
    with False Cons.IH [OF t] show ?thesis by simp
  qed
qed

lemma canStand_frame:
  "onlyCoinsInactive es \<Longrightarrow> canStand r es = canStand r (filter participates es)"
proof (induction es)
  case Nil
  then show ?case by simp
next
  case (Cons e es)
  from Cons.prems have h: "active e \<or> etype e = Coin" and t: "onlyCoinsInactive es"
    by (simp_all add: onlyCoinsInactive_def)
  from inactive_coin_not_solid [OF h] Cons.IH [OF t] show ?case by auto
qed

lemma interact_skip: "\<not> participates e \<Longrightarrow> interact tm e st = ([], e, st)"
  by (simp add: interact_def participates_def)

lemma interactAll_frame:
  "fst (interactAll tm es st) = fst (interactAll tm (filter participates es) st) \<and>
   snd (snd (interactAll tm es st)) = snd (snd (interactAll tm (filter participates es) st))"
proof (induction es arbitrary: st)
  case Nil
  then show ?case by simp
next
  case (Cons e es)
  show ?case
  proof (cases "participates e")
    case True
    with Cons.IH [of "snd (snd (interact tm e st))"] show ?thesis by (simp add: split_beta)
  next
    case False
    with Cons.IH [of st] show ?thesis by (simp add: split_beta interact_skip)
  qed
qed

lemma xPassPlayer_frame:
  "onlyCoinsInactive es \<Longrightarrow>
   xPassPlayer level es p = xPassPlayer level (filter participates es) p"
  by (simp add: xPassPlayer_def resolveXAll_frame)

lemma yPassPlayer_frame:
  "onlyCoinsInactive es \<Longrightarrow>
   yPassPlayer level m es p = yPassPlayer level m (filter participates es) p"
  by (simp add: yPassPlayer_def resolveYAll_frame)

subsection \<open>A whole tick\<close>

lemma withoutInactive_time:
  "withoutInactive (g\<lparr>time := t\<rparr>) = (withoutInactive g)\<lparr>time := t\<rparr>"
  by (simp add: withoutInactive_def)

lemma respawn_frame:
  "respawn m maxHp (withoutInactive g) =
     (fst (respawn m maxHp g), withoutInactive (snd (respawn m maxHp g)))"
  by (simp add: respawn_def withoutInactive_def)

lemma moveEntities_frame: "moveEntities (withoutInactive g) = withoutInactive (moveEntities g)"
  by (simp add: moveEntities_def withoutInactive_def filter_map comp_def
      moveEntity_participates)

lemma updateCrouch_frame:
  "onlyCoinsInactive (entities g) \<Longrightarrow>
   updateCrouch (withoutInactive g) = withoutInactive (updateCrouch g)"
  using canStand_frame [of "entities g"]
  by (simp add: updateCrouch_def withoutInactive_def Let_def)

lemma updateVelX_frame: "updateVelX m (withoutInactive g) = withoutInactive (updateVelX m g)"
  by (simp add: updateVelX_def withoutInactive_def Let_def split_beta)

lemma applyGravity_frame: "applyGravity m (withoutInactive g) = withoutInactive (applyGravity m g)"
  by (simp add: applyGravity_def withoutInactive_def Let_def)

lemma jumpLogic_frame:
  "jumpLogic m (withoutInactive g) = (fst (jumpLogic m g), withoutInactive (snd (jumpLogic m g)))"
  by (simp add: jumpLogic_def withoutInactive_def Let_def split_beta)

lemma xPass_frame:
  "onlyCoinsInactive (entities g) \<Longrightarrow>
   xPass level (withoutInactive g) = withoutInactive (xPass level g)"
  using xPassPlayer_frame [of "entities g" level "player g"]
  by (simp add: xPass_def withoutInactive_def)

lemma yPass_frame:
  "onlyCoinsInactive (entities g) \<Longrightarrow>
   yPass level m (withoutInactive g) =
     (fst (yPass level m g), withoutInactive (snd (yPass level m g)))"
  using yPassPlayer_frame [of "entities g" level m "player g"]
  by (simp add: yPass_def withoutInactive_def split_beta)

lemma interaction_frame:
  "fst (interaction (withoutInactive g)) = fst (interaction g) \<and>
   player (snd (interaction (withoutInactive g))) = player (snd (interaction g)) \<and>
   checkpoint (snd (interaction (withoutInactive g))) = checkpoint (snd (interaction g)) \<and>
   levelCompleteTriggered (snd (interaction (withoutInactive g)))
     = levelCompleteTriggered (snd (interaction g))"
  using interactAll_frame [of "time g" "entities g"
      "\<lparr>iplayer = player g, icheckpoint = checkpoint g,
        ilevelCompleteTriggered = levelCompleteTriggered g\<rparr>"]
  by (simp add: interaction_def withoutInactive_def split_beta)

lemma update_frame:
  assumes inv: "onlyCoinsInactive (entities g)"
  shows "fst (update level m maxHp paused (withoutInactive g))
           = fst (update level m maxHp paused g) \<and>
         player (snd (update level m maxHp paused (withoutInactive g)))
           = player (snd (update level m maxHp paused g)) \<and>
         checkpoint (snd (update level m maxHp paused (withoutInactive g)))
           = checkpoint (snd (update level m maxHp paused g)) \<and>
         levelCompleteTriggered (snd (update level m maxHp paused (withoutInactive g)))
           = levelCompleteTriggered (snd (update level m maxHp paused g))"
proof (cases paused)
  case True
  then show ?thesis by (simp add: update_def withoutInactive_def)
next
  case False
  let ?g1 = "snd (respawn m maxHp (g\<lparr>time := time g + 1\<rparr>))"
  let ?g2 = "moveEntities ?g1"
  let ?g3 = "applyGravity m (updateVelX m (updateCrouch ?g2))"
  let ?g4 = "xPass level (snd (jumpLogic m ?g3))"
  let ?g5 = "snd (yPass level m ?g4)"
  have i2: "onlyCoinsInactive (entities ?g2)"
    using moveEntities_invariant [OF inv] by (simp add: moveEntities_def respawn_entities)
  then have i3: "onlyCoinsInactive (entities (snd (jumpLogic m ?g3)))"
    by (simp add: stage_entities)
  then have i4: "onlyCoinsInactive (entities ?g4)" by (simp add: stage_entities)
  have e1: "respawn m maxHp ((withoutInactive g)\<lparr>time := time (withoutInactive g) + 1\<rparr>)
             = (fst (respawn m maxHp (g\<lparr>time := time g + 1\<rparr>)), withoutInactive ?g1)"
  proof -
    have "(withoutInactive g)\<lparr>time := time (withoutInactive g) + 1\<rparr>
            = withoutInactive (g\<lparr>time := time g + 1\<rparr>)"
      by (simp add: withoutInactive_def)
    then show ?thesis by (simp only: respawn_frame)
  qed
  have s3: "applyGravity m (updateVelX m (updateCrouch (moveEntities
              (withoutInactive ?g1)))) = withoutInactive ?g3"
  proof -
    have "moveEntities (withoutInactive ?g1) = withoutInactive ?g2"
      by (rule moveEntities_frame)
    moreover have "updateCrouch (withoutInactive ?g2) = withoutInactive (updateCrouch ?g2)"
      by (rule updateCrouch_frame [OF i2])
    ultimately show ?thesis by (simp only: updateVelX_frame applyGravity_frame)
  qed
  have s4: "xPass level (withoutInactive (snd (jumpLogic m ?g3))) = withoutInactive ?g4"
    by (rule xPass_frame [OF i3])
  note s5 = yPass_frame [OF i4, of level m]
  note s6 = interaction_frame [of ?g5]
  show ?thesis
    unfolding update_events [OF False] update_state [OF False] e1 fst_conv snd_conv s3
      jumpLogic_frame s4 s5
    using s6 by simp
qed

text \<open>
  C9. In every state a mounted canvas can reach, and for the entity list as the passes
  of a tick see it (after the entities have moved), the entities that are inactive and
  not checkpoints can be removed without changing the result of the horizontal pass,
  of the vertical pass, of the stand-up probe, or the events and the resulting player,
  checkpoint and finish latch of the interaction pass; and a whole tick sends the same
  events and leaves the same player, checkpoint and finish latch with or without them.
  (Only the interaction pass tests \<open>active\<close>; the other passes never meet an inactive
  obstacle, because mounting activates everything but collected coins and only coins
  are ever deactivated.)
\<close>

theorem inactive_entities_do_not_collide:
  fixes level lv :: LevelData and m m' :: GameModifiers and maxHp :: real
    and ids :: "string set" and fs :: "(KeyInput list \<times> bool) list" and t :: nat
  defines "g \<equiv> reachable level m maxHp ids fs"
  defines "es \<equiv> map (moveEntity t) (entities (reachable level m maxHp ids fs))"
  shows "xPassPlayer lv es p = xPassPlayer lv (filter participates es) p \<and>
         yPassPlayer lv m' es p = yPassPlayer lv m' (filter participates es) p \<and>
         canStand r es = canStand r (filter participates es) \<and>
         fst (interactAll tm es st) = fst (interactAll tm (filter participates es) st) \<and>
         snd (snd (interactAll tm es st))
           = snd (snd (interactAll tm (filter participates es) st)) \<and>
         fst (update level m maxHp paused (withoutInactive g))
           = fst (update level m maxHp paused g) \<and>
         player (snd (update level m maxHp paused (withoutInactive g)))
           = player (snd (update level m maxHp paused g)) \<and>
         checkpoint (snd (update level m maxHp paused (withoutInactive g)))
           = checkpoint (snd (update level m maxHp paused g)) \<and>
         levelCompleteTriggered (snd (update level m maxHp paused (withoutInactive g)))
           = levelCompleteTriggered (snd (update level m maxHp paused g))"
proof -
  have ig: "onlyCoinsInactive (entities g)"
    unfolding g_def by (rule reachable_invariant)
  then have ie: "onlyCoinsInactive es"
    unfolding es_def g_def by (rule moveEntities_invariant)
  show ?thesis
    using xPassPlayer_frame [OF ie] yPassPlayer_frame [OF ie] canStand_frame [OF ie]
      interactAll_frame [of tm es st] update_frame [OF ig, of level m maxHp paused]
    by simp
qed

lemma coinLevel_mounted:
  "entities (reachable coinLevel noModifiers 100 {''c1''} [])
     = [(entityAt Platform ''floor'' 0 400 1000 40)\<lparr>startPos := Some \<lparr>xv = 0, yv = 400\<rparr>\<rparr>,
        (entityAt Coin ''c1'' 40 90 40 40)
          \<lparr>collected := True, active := False, startPos := Some \<lparr>xv = 40, yv = 90\<rparr>\<rparr>] \<and>
   pos (player (reachable coinLevel noModifiers 100 {''c1''} [])) = \<lparr>xv = 50, yv = 100\<rparr> \<and>
   sz (player (reachable coinLevel noModifiers 100 {''c1''} [])) = \<lparr>xv = 32, yv = 32\<rparr>"
  by (simp add: reachable_def mountGame_def initEntity_def coinLevel_def entityAt_def
      PLAYER_SIZE_def)

lemma coinLevel_collected_tick:
  "fst (update coinLevel noModifiers 100 False (reachable coinLevel noModifiers 100 {''c1''} []))
     = []"
  by (simp add: reachable_def stage_defs const_defs coinLevel_def entityAt_def Let_def)

lemma coinLevel_fresh_tick:
  "fst (update coinLevel noModifiers 100 False (reachable coinLevel noModifiers 100 {} []))
     = [PlaySound CoinSound, OnCoinCollect ''c1'']"
  by (simp add: reachable_def stage_defs const_defs coinLevel_def entityAt_def Let_def)

theorem inactive_entities_do_not_collide_witness:
  "map active (entities (reachable coinLevel noModifiers 100 {''c1''} [])) = [True, False] \<and>
   checkCollision (player (reachable coinLevel noModifiers 100 {''c1''} []))
     (entities (reachable coinLevel noModifiers 100 {''c1''} []) ! 1) \<and>
   map eid (entities (withoutInactive (reachable coinLevel noModifiers 100 {''c1''} [])))
     = [''floor''] \<and>
   fst (update coinLevel noModifiers 100 False (reachable coinLevel noModifiers 100 {''c1''} []))
     = [] \<and>
   fst (update coinLevel noModifiers 100 False
          (withoutInactive (reachable coinLevel noModifiers 100 {''c1''} []))) = [] \<and>
   fst (update coinLevel noModifiers 100 False (reachable coinLevel noModifiers 100 {} []))
     = [PlaySound CoinSound, OnCoinCollect ''c1'']"
proof -
  note inst = inactive_entities_do_not_collide
    [where level = coinLevel and m = noModifiers and maxHp = 100 and ids = "{''c1''}"
       and fs = "[]" and paused = False and t = 0 and lv = coinLevel and m' = noModifiers
       and r = "\<lparr>pos = \<lparr>xv = 0, yv = 0\<rparr>, sz = \<lparr>xv = 0, yv = 0\<rparr>\<rparr>" and tm = 0
       and p = "player (reachable coinLevel noModifiers 100 {''c1''} [])"
       and st = "\<lparr>iplayer = player (reachable coinLevel noModifiers 100 {''c1''} []),
                  icheckpoint = \<lparr>xv = 0, yv = 0\<rparr>, ilevelCompleteTriggered = False\<rparr>"]
  then have "fst (update coinLevel noModifiers 100 False
          (withoutInactive (reachable coinLevel noModifiers 100 {''c1''} []))) = []"
    by (simp only: coinLevel_collected_tick)
  then show ?thesis
    by (simp add: coinLevel_mounted coinLevel_collected_tick coinLevel_fresh_tick
        withoutInactive_def participates_def checkCollision_def entityAt_def)
qed

end
